theory Spec2Isabelle
  imports Complex_Main "HOL-Library.Log_Nat" "HOL-Library.Word"
begin

section \<open>Data model of the point-of-sale terminal\<close>

text \<open>
  The types of \<^verbatim>\<open>frontend-ts/src/types/index.ts\<close>. A TypeScript \<^verbatim>\<open>number\<close> that
  holds an identifier or a count is an \<open>int\<close>; one that holds an amount of money is a
  \<open>real\<close>, the exact value of the double-precision number in the field. Arithmetic on
  these numbers is JavaScript's: section ``JavaScript numbers'' below rounds every sum and
  product to a double. The fields of \<^verbatim>\<open>Product\<close> and \<^verbatim>\<open>Invoice\<close> carry a prefix where
  the source reuses a field name in two interfaces.
\<close>

record product =
  prod_id :: int
  prod_name :: string
  prod_price :: real
  stock :: int
  barcode :: "string option"
  created_at :: string

record cart_item =
  product_id :: int
  name :: string
  price :: real
  quantity :: int

record invoice_item =
  item_id :: int
  item_product_id :: int
  item_quantity :: int
  unit_price :: real
  item_product :: product

record invoice =
  inv_id :: int
  customer_name :: string
  total_amount :: real
  tax_amount :: real
  payment_method :: string
  inv_created_at :: string
  items :: "invoice_item list"

record checkout_request =
  req_cart :: "cart_item list"
  req_customer_name :: string
  req_payment_method :: string

section \<open>JavaScript numbers\<close>

text \<open>
  A JavaScript number is an IEEE 754 binary64 value: a finite double, an infinity, or
  NaN. A finite double is modelled by the real it denotes (so the two zeros, which \<open>+\<close>
  and \<open>*\<close> cannot tell apart in a non-zero result, are one value). \<open>+\<close> and \<open>*\<close>
  compute the exact result and round it to the nearest double, ties to the even
  significand.

  \<open>round_even\<close> rounds a real to the nearest integer, ties to even. \<open>floor_log2 x\<close>
  is the exponent \<open>l\<close> with \<open>2^l \<le> x < 2^(l+1)\<close> of a positive \<open>x\<close>. \<open>round_double\<close>
  keeps 53 significant bits, or what remains of them above the smallest subnormal
  \<open>2^-1074\<close>; the exponent is not bounded above here. \<open>to_number\<close> adds the overflow: a
  rounded magnitude of \<open>2^1024\<close> or more is an infinity.
\<close>

definition round_even :: "real \<Rightarrow> int" where
  "round_even x =
     (let f = \<lfloor>x\<rfloor>; r = x - of_int f
      in if r < 1 / 2 then f else if 1 / 2 < r then f + 1 else if even f then f else f + 1)"

definition floor_log2 :: "real \<Rightarrow> int" where
  "floor_log2 x = (if 1 \<le> x then bitlen \<lfloor>x\<rfloor> - 1 else - bitlen (\<lceil>1 / x\<rceil> - 1))"

definition round_double :: "real \<Rightarrow> real" where
  "round_double x =
     (if x = 0 then 0
      else let e = max (floor_log2 \<bar>x\<bar> - 52) (- 1074)
           in of_int (round_even (x / 2 powi e)) * 2 powi e)"

datatype number = Finite real | PosInfinity | NegInfinity | NaN

definition to_number :: "real \<Rightarrow> number" where
  "to_number x =
     (let y = round_double x
      in if 2 ^ 1024 \<le> \<bar>y\<bar> then (if 0 < x then PosInfinity else NegInfinity) else Finite y)"

fun num_add :: "number \<Rightarrow> number \<Rightarrow> number" where
  "num_add (Finite a) (Finite b) = to_number (a + b)"
| "num_add NaN y = NaN"
| "num_add x NaN = NaN"
| "num_add PosInfinity NegInfinity = NaN"
| "num_add NegInfinity PosInfinity = NaN"
| "num_add PosInfinity y = PosInfinity"
| "num_add x PosInfinity = PosInfinity"
| "num_add NegInfinity y = NegInfinity"
| "num_add x NegInfinity = NegInfinity"

fun num_mul :: "number \<Rightarrow> number \<Rightarrow> number" where
  "num_mul (Finite a) (Finite b) = to_number (a * b)"
| "num_mul NaN y = NaN"
| "num_mul x NaN = NaN"
| "num_mul PosInfinity (Finite b) =
     (if b = 0 then NaN else if 0 < b then PosInfinity else NegInfinity)"
| "num_mul NegInfinity (Finite b) =
     (if b = 0 then NaN else if 0 < b then NegInfinity else PosInfinity)"
| "num_mul (Finite a) PosInfinity =
     (if a = 0 then NaN else if 0 < a then PosInfinity else NegInfinity)"
| "num_mul (Finite a) NegInfinity =
     (if a = 0 then NaN else if 0 < a then NegInfinity else PosInfinity)"
| "num_mul PosInfinity PosInfinity = PosInfinity"
| "num_mul NegInfinity NegInfinity = PosInfinity"
| "num_mul PosInfinity NegInfinity = NegInfinity"
| "num_mul NegInfinity PosInfinity = NegInfinity"

record totals =
  subtotal :: number
  tax :: number
  total :: number

section \<open>The cart store\<close>

text \<open>
  The updater functions that the component \<^verbatim>\<open>POS\<close> hands to \<^verbatim>\<open>setCart\<close>: each maps
  the previous cart to the next one.
\<close>

definition addToCart :: "product \<Rightarrow> cart_item list \<Rightarrow> cart_item list" where
  "addToCart product prevCart =
     (case find (\<lambda>item. product_id item = prod_id product) prevCart of
        Some existingItem \<Rightarrow>
          map (\<lambda>item. if product_id item = prod_id product
                       then item\<lparr>quantity := quantity item + 1\<rparr>
                       else item) prevCart
      | None \<Rightarrow>
          prevCart @ [\<lparr>product_id = prod_id product, name = prod_name product,
                       price = prod_price product, quantity = 1\<rparr>])"

definition updateQuantity :: "int \<Rightarrow> int \<Rightarrow> cart_item list \<Rightarrow> cart_item list" where
  "updateQuantity productId change prevCart =
     (case find (\<lambda>item. product_id item = productId) prevCart of
        None \<Rightarrow> prevCart
      | Some item \<Rightarrow>
          (let newQuantity = quantity item + change in
           if newQuantity \<le> 0
           then filter (\<lambda>item. product_id item \<noteq> productId) prevCart
           else map (\<lambda>item. if product_id item = productId
                             then item\<lparr>quantity := newQuantity\<rparr>
                             else item) prevCart))"

definition removeFromCart :: "int \<Rightarrow> cart_item list \<Rightarrow> cart_item list" where
  "removeFromCart productId prevCart =
     filter (\<lambda>item. product_id item \<noteq> productId) prevCart"

text \<open>
  \<^verbatim>\<open>clearCart\<close> asks \<^verbatim>\<open>window.confirm\<close> only when the cart has a line; the
  operator's answer is the first argument.
\<close>

definition clearCart :: "bool \<Rightarrow> cart_item list \<Rightarrow> cart_item list" where
  "clearCart confirmed cart = (if length cart > 0 \<and> confirmed then [] else cart)"

text \<open>The literal \<^verbatim>\<open>0.08\<close> is the double nearest to 0.08.\<close>

definition taxRate :: number where
  "taxRate = to_number 0.08"

definition calculateTotals :: "cart_item list \<Rightarrow> totals" where
  "calculateTotals cart =
     (let subtotal =
            foldl (\<lambda>sum item.
                     num_add sum (num_mul (Finite (price item)) (Finite (of_int (quantity item)))))
              (Finite 0) cart;
          tax = num_mul subtotal taxRate;
          total = num_add subtotal tax
      in \<lparr>subtotal = subtotal, tax = tax, total = total\<rparr>)"

text \<open>The invariant of section 4.1: one line per product, every quantity positive.\<close>

definition cart_ok :: "cart_item list \<Rightarrow> bool" where
  "cart_ok cart = (distinct (map product_id cart) \<and> list_all (\<lambda>item. 1 \<le> quantity item) cart)"

section \<open>Requests, failures and what the operator sees\<close>

text \<open>
  Modelled from the spec: the body of a failed response. The backend is not part of the
  sources; section 6 of the specification gives a failed response a structured body with
  a \<^verbatim>\<open>detail\<close> message. \<open>detail = None\<close> is a body without that field.
\<close>

record http_response =
  status :: int
  detail :: "string option"

text \<open>
  What a \<^verbatim>\<open>catch\<close> clause of the component can receive: an error of the HTTP client
  (with the response when the server answered, and the client's own message), another
  \<^verbatim>\<open>Error\<close> with its message, or any other thrown value.
\<close>

record axios_error =
  response :: "http_response option"
  message :: string

datatype thrown = AxiosError axios_error | StdError string | OtherThrown

text \<open>
  What the operator types is a JavaScript string: a sequence of UTF-16 code units.
\<close>

type_synonym js_string = "16 word list"

definition code_units :: "string \<Rightarrow> js_string" where
  "code_units s = map of_char s"

text \<open>
  The effects of the component on the outside, in the order in which they happen.
  \<open>HttpGetAt url s\<close> is the GET of the address \<open>url\<close> followed by the typed string
  \<open>s\<close>.
\<close>

datatype effect =
    Alert string
  | ConsoleError string
  | HttpGet string
  | HttpGetAt string js_string
  | HttpPost string checkout_request
  | Focus

text \<open>The state of the component \<^verbatim>\<open>POS\<close>: one field per \<^verbatim>\<open>useState\<close>.\<close>

record pos_state =
  products :: "product list"
  cart :: "cart_item list"
  customerName :: string
  paymentMethod :: string
  barcodeInput :: js_string
  showReceipt :: bool
  currentInvoice :: "invoice option"

definition initial_state :: pos_state where
  "initial_state =
     \<lparr>products = [], cart = [], customerName = ''Walk-in Customer'', paymentMethod = ''cash'',
      barcodeInput = [], showReceipt = False, currentInvoice = None\<rparr>"

definition API_BASE :: string where
  "API_BASE = ''http://localhost:8000''"

text \<open>
  JavaScript's \<^verbatim>\<open>a || b\<close> on an optional string: \<open>a\<close> when it is a non-empty
  string, \<open>b\<close> when \<open>a\<close> is undefined or empty.
\<close>

definition or_else :: "string option \<Rightarrow> string \<Rightarrow> string" where
  "or_else a b = (case a of None \<Rightarrow> b | Some s \<Rightarrow> if s = [] then b else s)"

text \<open>\<^verbatim>\<open>error.response?.data?.detail\<close>\<close>

definition response_detail :: "axios_error \<Rightarrow> string option" where
  "response_detail error = (case response error of None \<Rightarrow> None | Some r \<Rightarrow> detail r)"

definition checkoutErrorMessage :: "thrown \<Rightarrow> string" where
  "checkoutErrorMessage error =
     (case error of
        AxiosError e \<Rightarrow>
          or_else (response_detail e) (or_else (Some (message e)) ''Checkout failed'')
      | StdError m \<Rightarrow> m
      | OtherThrown \<Rightarrow> ''Checkout failed'')"

definition searchErrorMessage :: "thrown \<Rightarrow> string" where
  "searchErrorMessage error =
     (case error of
        AxiosError e \<Rightarrow>
          if map_option status (response e) = Some 404 then ''Product not found!''
          else or_else (response_detail e) (or_else (Some (message e)) ''Search failed'')
      | StdError m \<Rightarrow> m
      | OtherThrown \<Rightarrow> ''Product not found!'')"

text \<open>
  \<^verbatim>\<open>String.prototype.trim\<close> removes the white space and the line terminators of
  ECMAScript from both ends: tab, line feed, vertical tab, form feed, carriage return,
  space, no-break space, the other space separators of Unicode (U+1680, U+2000 to
  U+200A, U+202F, U+205F, U+3000), the line and paragraph separators (U+2028, U+2029) and
  the byte order mark (U+FEFF). Each is one code unit.
\<close>

definition white_space :: "16 word \<Rightarrow> bool" where
  "white_space u \<longleftrightarrow>
     u \<in> set [0x0009, 0x000A, 0x000B, 0x000C, 0x000D, 0x0020, 0x00A0, 0x1680,
               0x2000, 0x2001, 0x2002, 0x2003, 0x2004, 0x2005, 0x2006, 0x2007, 0x2008,
               0x2009, 0x200A, 0x2028, 0x2029, 0x202F, 0x205F, 0x3000, 0xFEFF]"

definition trim :: "js_string \<Rightarrow> js_string" where
  "trim s = rev (dropWhile white_space (rev (dropWhile white_space s)))"

section \<open>The catalog client\<close>

text \<open>
  Every function that awaits the backend takes the backend's answer as its first
  argument: \<open>Inr\<close> the data of a successful response, \<open>Inl\<close> what the client threw.
\<close>

definition loadProducts :: "thrown + product list \<Rightarrow> pos_state \<Rightarrow> pos_state \<times> effect list" where
  "loadProducts reply s =
     (case reply of
        Inr data \<Rightarrow> (s\<lparr>products := data\<rparr>, [HttpGet (API_BASE @ ''/products'')])
      | Inl error \<Rightarrow>
          (s, [HttpGet (API_BASE @ ''/products''), ConsoleError ''Error loading products:'']))"

definition searchByBarcode :: "thrown + product \<Rightarrow> pos_state \<Rightarrow> pos_state \<times> effect list" where
  "searchByBarcode reply s =
     (if trim (barcodeInput s) = [] then (s, [])
      else
        (case reply of
           Inr data \<Rightarrow>
             (s\<lparr>cart := addToCart data (cart s), barcodeInput := []\<rparr>,
              [HttpGetAt (API_BASE @ ''/products/'') (barcodeInput s), Focus])
         | Inl error \<Rightarrow>
             (s, [HttpGetAt (API_BASE @ ''/products/'') (barcodeInput s),
                  Alert (searchErrorMessage error),
                  ConsoleError ''Barcode search error:''])))"

section \<open>The checkout orchestrator\<close>

text \<open>
  \<^verbatim>\<open>processCheckout\<close> in its two halves: up to the \<^verbatim>\<open>await\<close> of the POST (the
  empty-cart guard, the snapshot, the request), and from the backend's answer on. The
  source starts \<^verbatim>\<open>loadProducts\<close> after a confirmed checkout without awaiting it; the
  model runs it to its end, with the catalog's answer as a further argument.
\<close>

definition checkoutData :: "pos_state \<Rightarrow> checkout_request" where
  "checkoutData s =
     \<lparr>req_cart = cart s, req_customer_name = customerName s,
      req_payment_method = paymentMethod s\<rparr>"

definition processCheckout_request :: "pos_state \<Rightarrow> effect list \<times> checkout_request option" where
  "processCheckout_request s =
     (if length (cart s) = 0 then ([Alert ''Cart is empty!''], None)
      else ([HttpPost (API_BASE @ ''/checkout'') (checkoutData s)], Some (checkoutData s)))"

definition processCheckout_reply ::
  "thrown + invoice \<Rightarrow> thrown + product list \<Rightarrow> pos_state \<Rightarrow> pos_state \<times> effect list" where
  "processCheckout_reply reply catalog s =
     (case reply of
        Inr data \<Rightarrow>
          loadProducts catalog (s\<lparr>currentInvoice := Some data, showReceipt := True, cart := []\<rparr>)
      | Inl error \<Rightarrow>
          (s, [ConsoleError ''Checkout error:'', Alert (checkoutErrorMessage error)]))"

definition processCheckout ::
  "thrown + invoice \<Rightarrow> thrown + product list \<Rightarrow> pos_state \<Rightarrow> pos_state \<times> effect list" where
  "processCheckout reply catalog s =
     (case processCheckout_request s of
        (es, None) \<Rightarrow> (s, es)
      | (es, Some request) \<Rightarrow>
          (case processCheckout_reply reply catalog s of (s', es') \<Rightarrow> (s', es @ es')))"

text \<open>
  The terminal with its network: the component's state, the checkout requests that were
  sent and not yet answered, and everything the component did so far. A click on
  ``Process Payment'' runs the first half of \<^verbatim>\<open>processCheckout\<close>; the answer to the
  oldest outstanding request runs the second half.
\<close>

record terminal =
  ui :: pos_state
  inflight :: "checkout_request list"
  trace :: "effect list"

definition clickCheckout :: "terminal \<Rightarrow> terminal" where
  "clickCheckout t =
     (case processCheckout_request (ui t) of
        (es, None) \<Rightarrow> t\<lparr>trace := trace t @ es\<rparr>
      | (es, Some request) \<Rightarrow> t\<lparr>inflight := inflight t @ [request], trace := trace t @ es\<rparr>)"

definition checkoutAnswered ::
  "thrown + invoice \<Rightarrow> thrown + product list \<Rightarrow> terminal \<Rightarrow> terminal" where
  "checkoutAnswered reply catalog t =
     (case inflight t of
        [] \<Rightarrow> t
      | request # rest \<Rightarrow>
          (case processCheckout_reply reply catalog (ui t) of
             (s', es) \<Rightarrow> \<lparr>ui = s', inflight = rest, trace = trace t @ es\<rparr>))"

section \<open>Sample data\<close>

text \<open>Two products, a sale in progress, and answers of the backend, for the scenarios.\<close>

definition widget :: product where
  "widget = \<lparr>prod_id = 1, prod_name = ''Widget'', prod_price = 10, stock = 3,
             barcode = Some ''4006381333931'', created_at = ''2024-01-01T09:00:00''\<rparr>"

definition gadget :: product where
  "gadget = \<lparr>prod_id = 2, prod_name = ''Gadget'', prod_price = 5, stock = 8,
             barcode = None, created_at = ''2024-01-02T09:00:00''\<rparr>"

definition open_sale :: pos_state where
  "open_sale =
     \<lparr>products = [widget, gadget],
      cart = [\<lparr>product_id = 1, name = ''Widget'', price = 10, quantity = 2\<rparr>,
              \<lparr>product_id = 2, name = ''Gadget'', price = 5, quantity = 1\<rparr>],
      customerName = ''Alice'', paymentMethod = ''card'', barcodeInput = code_units ''UNKNOWN'',
      showReceipt = False, currentInvoice = None\<rparr>"

definition receipt :: invoice where
  "receipt = \<lparr>inv_id = 41, customer_name = ''Alice'', total_amount = 27, tax_amount = 2,
              payment_method = ''card'', inv_created_at = ''2024-01-03T10:00:00'', items = []\<rparr>"

definition insufficient_stock :: thrown where
  "insufficient_stock =
     AxiosError \<lparr>response = Some \<lparr>status = 400, detail = Some ''Insufficient stock for Widget''\<rparr>,
                 message = ''Request failed with status code 400''\<rparr>"

definition not_found :: thrown where
  "not_found =
     AxiosError \<lparr>response = Some \<lparr>status = 404, detail = Some ''Product not found''\<rparr>,
                 message = ''Request failed with status code 404''\<rparr>"

definition network_down :: thrown where
  "network_down = AxiosError \<lparr>response = None, message = ''Network Error''\<rparr>"

section \<open>Lemmas about the cart store\<close>

lemma find_None_iff_ids: "find (\<lambda>item. product_id item = k) c = None \<longleftrightarrow> k \<notin> set (map product_id c)"
  by (induction c) auto

lemma map_bump_absent:
  "k \<notin> set (map product_id c) \<Longrightarrow> map (\<lambda>item. if product_id item = k then f item else item) c = c"
  by (induction c) auto

lemma addToCart_absent:
  "prod_id p \<notin> set (map product_id c) \<Longrightarrow>
   addToCart p c = c @ [\<lparr>product_id = prod_id p, name = prod_name p, price = prod_price p, quantity = 1\<rparr>]"
  using find_None_iff_ids [of "prod_id p" c] by (simp add: addToCart_def)

lemma addToCart_present:
  "prod_id p \<in> set (map product_id c) \<Longrightarrow>
   addToCart p c = map (\<lambda>item. if product_id item = prod_id p then item\<lparr>quantity := quantity item + 1\<rparr> else item) c"
  using find_None_iff_ids [of "prod_id p" c] by (auto simp: addToCart_def split: option.splits)

lemma addToCart_repeat:
  "prod_id p \<notin> set (map product_id c) \<Longrightarrow>
   (addToCart p ^^ Suc n) c =
     c @ [\<lparr>product_id = prod_id p, name = prod_name p, price = prod_price p, quantity = int (Suc n)\<rparr>]"
proof (induction n)
  case 0
  then show ?case by (simp add: addToCart_absent)
next
  case (Suc n)
  let ?l = "\<lparr>product_id = prod_id p, name = prod_name p, price = prod_price p, quantity = int (Suc n)\<rparr>"
  have "(addToCart p ^^ Suc (Suc n)) c = addToCart p (c @ [?l])"
    using Suc by simp
  also have "\<dots> = map (\<lambda>item. if product_id item = prod_id p then item\<lparr>quantity := quantity item + 1\<rparr> else item) (c @ [?l])"
    by (rule addToCart_present) simp
  also have "\<dots> = c @ [?l\<lparr>quantity := int (Suc n) + 1\<rparr>]"
    using Suc.prems by (simp add: map_bump_absent)
  finally show ?case by (simp add: add.commute)
qed

lemma find_map_bump:
  "find (\<lambda>item. product_id item = k) c = Some e \<Longrightarrow>
   find (\<lambda>item. product_id item = k) (map (\<lambda>item. if product_id item = k then item\<lparr>quantity := q item\<rparr> else item) c)
     = Some (e\<lparr>quantity := q e\<rparr>)"
  by (induction c) (auto split: if_splits)

lemma ids_map_bump:
  "map product_id (map (\<lambda>item. if product_id item = k then item\<lparr>quantity := q item\<rparr> else item) c) = map product_id c"
  by (induction c) auto

lemma ids_filter:
  "map product_id (filter (\<lambda>item. product_id item \<noteq> k) c) = filter (\<lambda>i. i \<noteq> k) (map product_id c)"
  by (induction c) auto

lemma others_map_bump:
  "filter (\<lambda>item. product_id item \<noteq> k) (map (\<lambda>item. if product_id item = k then item\<lparr>quantity := q item\<rparr> else item) c)
     = filter (\<lambda>item. product_id item \<noteq> k) c"
  by (induction c) auto

lemma qty_map_bump:
  "list_all (\<lambda>item. 1 \<le> quantity item) c \<Longrightarrow> (\<And>item. item \<in> set c \<Longrightarrow> product_id item = k \<Longrightarrow> 1 \<le> q item) \<Longrightarrow>
   list_all (\<lambda>item. 1 \<le> quantity item) (map (\<lambda>item. if product_id item = k then item\<lparr>quantity := q item\<rparr> else item) c)"
  by (induction c) auto

lemma qty_filter:
  "list_all (\<lambda>item. 1 \<le> quantity item) c \<Longrightarrow> list_all (\<lambda>item. 1 \<le> quantity item) (filter P c)"
  by (induction c) auto

lemma cart_ok_addToCart: "cart_ok c \<Longrightarrow> cart_ok (addToCart p c)"
proof (cases "prod_id p \<in> set (map product_id c)")
  case True
  assume ok: "cart_ok c"
  have "list_all (\<lambda>item. 1 \<le> quantity item) (addToCart p c)"
    unfolding addToCart_present [OF True]
    by (rule qty_map_bump) (use ok in \<open>auto simp: cart_ok_def list_all_iff\<close>)
  moreover have "map product_id (addToCart p c) = map product_id c"
    by (simp only: addToCart_present [OF True] ids_map_bump)
  ultimately show ?thesis
    using ok by (simp add: cart_ok_def)
next
  case False
  assume "cart_ok c"
  then show ?thesis
    using False by (simp add: cart_ok_def addToCart_absent)
qed

lemma cart_ok_filter: "cart_ok c \<Longrightarrow> cart_ok (filter (\<lambda>item. product_id item \<noteq> k) c)"
  by (simp add: cart_ok_def ids_filter qty_filter)

lemma updateQuantity_absent:
  "find (\<lambda>item. product_id item = k) c = None \<Longrightarrow> updateQuantity k d c = c"
  by (simp add: updateQuantity_def)

lemma updateQuantity_drop:
  "find (\<lambda>item. product_id item = k) c = Some e \<Longrightarrow> quantity e + d \<le> 0 \<Longrightarrow>
   updateQuantity k d c = filter (\<lambda>item. product_id item \<noteq> k) c"
  by (simp add: updateQuantity_def)

lemma updateQuantity_keep:
  "find (\<lambda>item. product_id item = k) c = Some e \<Longrightarrow> 0 < quantity e + d \<Longrightarrow>
   updateQuantity k d c =
     map (\<lambda>item. if product_id item = k then item\<lparr>quantity := quantity e + d\<rparr> else item) c"
  by (simp add: updateQuantity_def)

lemma qty_updateQuantity:
  "list_all (\<lambda>item. 1 \<le> quantity item) c \<Longrightarrow>
   list_all (\<lambda>item. 1 \<le> quantity item) (updateQuantity k d c)"
proof (cases "find (\<lambda>item. product_id item = k) c")
  case None
  assume "list_all (\<lambda>item. 1 \<le> quantity item) c"
  then show ?thesis by (simp add: updateQuantity_absent [OF None])
next
  case (Some e)
  assume ok: "list_all (\<lambda>item. 1 \<le> quantity item) c"
  show ?thesis
  proof (cases "quantity e + d \<le> 0")
    case True
    show ?thesis
      unfolding updateQuantity_drop [OF Some True] using ok by (rule qty_filter)
  next
    case False
    then have pos: "0 < quantity e + d" by simp
    show ?thesis
      unfolding updateQuantity_keep [OF Some pos]
      by (rule qty_map_bump) (use ok pos in auto)
  qed
qed

lemma ids_updateQuantity:
  "map product_id (updateQuantity k d c) =
     (case find (\<lambda>item. product_id item = k) c of
        None \<Rightarrow> map product_id c
      | Some e \<Rightarrow> if quantity e + d \<le> 0 then filter (\<lambda>i. i \<noteq> k) (map product_id c)
                  else map product_id c)"
proof (cases "find (\<lambda>item. product_id item = k) c")
  case None
  then show ?thesis by (simp add: updateQuantity_absent)
next
  case (Some e)
  show ?thesis
  proof (cases "quantity e + d \<le> 0")
    case True
    then show ?thesis
      by (simp only: updateQuantity_drop [OF Some True] ids_filter Some option.case if_True)
  next
    case False
    then have pos: "0 < quantity e + d" by simp
    show ?thesis
      by (simp only: updateQuantity_keep [OF Some pos] ids_map_bump Some option.case False if_False)
  qed
qed

lemma cart_ok_updateQuantity: "cart_ok c \<Longrightarrow> cart_ok (updateQuantity k d c)"
proof -
  assume ok: "cart_ok c"
  then have q: "list_all (\<lambda>item. 1 \<le> quantity item) (updateQuantity k d c)"
    by (simp add: cart_ok_def qty_updateQuantity)
  have "distinct (map product_id (updateQuantity k d c))"
    using ok by (simp add: ids_updateQuantity cart_ok_def split: option.split)
  with q show ?thesis by (simp add: cart_ok_def)
qed

lemma cart_ok_removeFromCart: "cart_ok c \<Longrightarrow> cart_ok (removeFromCart k c)"
  by (simp add: removeFromCart_def cart_ok_filter)

lemma cart_ok_clearCart: "cart_ok c \<Longrightarrow> cart_ok (clearCart b c)"
  by (simp add: clearCart_def cart_ok_def)

lemma filter_own_snoc:
  "k \<notin> set (map product_id c) \<Longrightarrow> product_id l = k \<Longrightarrow>
   filter (\<lambda>item. product_id item = k) (c @ [l]) = [l]"
  by (induction c) auto

lemma others_filter:
  "filter (\<lambda>item. product_id item \<noteq> k) (filter (\<lambda>item. product_id item \<noteq> k) c) =
   filter (\<lambda>item. product_id item \<noteq> k) c"
  by simp

lemma others_addToCart:
  "filter (\<lambda>item. product_id item \<noteq> prod_id p) (addToCart p c) =
   filter (\<lambda>item. product_id item \<noteq> prod_id p) c"
proof (cases "prod_id p \<in> set (map product_id c)")
  case True
  show ?thesis by (simp only: addToCart_present [OF True] others_map_bump)
next
  case False
  show ?thesis by (simp add: addToCart_absent [OF False])
qed

lemma others_updateQuantity:
  "filter (\<lambda>item. product_id item \<noteq> k) (updateQuantity k d c) =
   filter (\<lambda>item. product_id item \<noteq> k) c"
proof (cases "find (\<lambda>item. product_id item = k) c")
  case None
  then show ?thesis by (simp add: updateQuantity_absent)
next
  case (Some e)
  show ?thesis
  proof (cases "quantity e + d \<le> 0")
    case True
    show ?thesis by (simp only: updateQuantity_drop [OF Some True] others_filter)
  next
    case False
    then have pos: "0 < quantity e + d" by simp
    show ?thesis by (simp only: updateQuantity_keep [OF Some pos] others_map_bump)
  qed
qed

lemma ids_addToCart:
  "map product_id (addToCart p c) =
     (if prod_id p \<in> set (map product_id c) then map product_id c
      else map product_id c @ [prod_id p])"
proof (cases "prod_id p \<in> set (map product_id c)")
  case True
  show ?thesis by (simp only: addToCart_present [OF True] ids_map_bump True if_True)
next
  case False
  then show ?thesis by (simp add: addToCart_absent)
qed

section \<open>Lemmas about JavaScript numbers and the totals\<close>

lemma floor_log2_lower: "0 < x \<Longrightarrow> 2 powi floor_log2 x \<le> x"
proof (cases "1 \<le> x")
  case True
  then have n: "0 < \<lfloor>x\<rfloor>" by simp
  from bitlen_bounds [OF n] have "2 ^ nat (bitlen \<lfloor>x\<rfloor> - 1) \<le> \<lfloor>x\<rfloor>" ..
  then have "(2::real) ^ nat (bitlen \<lfloor>x\<rfloor> - 1) \<le> of_int \<lfloor>x\<rfloor>"
    by (metis of_int_le_iff of_int_numeral of_int_power)
  also have "\<dots> \<le> x" by simp
  finally have "(2::real) ^ nat (bitlen \<lfloor>x\<rfloor> - 1) \<le> x" .
  moreover have "1 \<le> bitlen \<lfloor>x\<rfloor>"
    using n by (simp add: bitlen_alt_def)
  ultimately show ?thesis
    using True by (simp add: floor_log2_def power_int_def)
next
  case False
  assume pos: "0 < x"
  with False have y: "1 < 1 / x" by simp
  let ?m = "\<lceil>1 / x\<rceil> - 1"
  have m: "0 < ?m" using y by linarith
  from bitlen_bounds [OF m] have "?m < 2 ^ nat (bitlen ?m)" ..
  then have "\<lceil>1 / x\<rceil> \<le> 2 ^ nat (bitlen ?m)" by linarith
  then have "of_int \<lceil>1 / x\<rceil> \<le> (2::real) ^ nat (bitlen ?m)"
    by (metis of_int_le_iff of_int_numeral of_int_power)
  then have "1 / x \<le> (2::real) ^ nat (bitlen ?m)"
    by linarith
  then have "1 / 2 ^ nat (bitlen ?m) \<le> x"
    using pos by (simp add: field_simps)
  moreover have "1 \<le> bitlen ?m" using m by (simp add: bitlen_alt_def)
  ultimately show ?thesis
    using False by (simp add: floor_log2_def power_int_def field_simps)
qed

lemma floor_log2_upper: "0 < x \<Longrightarrow> x < 2 powi (floor_log2 x + 1)"
proof (cases "1 \<le> x")
  case True
  then have n: "0 < \<lfloor>x\<rfloor>" by simp
  from bitlen_bounds [OF n] have "\<lfloor>x\<rfloor> < 2 ^ nat (bitlen \<lfloor>x\<rfloor>)" ..
  then have "\<lfloor>x\<rfloor> + 1 \<le> 2 ^ nat (bitlen \<lfloor>x\<rfloor>)" by linarith
  then have "of_int (\<lfloor>x\<rfloor> + 1) \<le> (2::real) ^ nat (bitlen \<lfloor>x\<rfloor>)"
    by (metis of_int_le_iff of_int_numeral of_int_power)
  moreover have "x < of_int (\<lfloor>x\<rfloor> + 1)" by linarith
  ultimately have "x < (2::real) ^ nat (bitlen \<lfloor>x\<rfloor>)" by linarith
  moreover have "0 \<le> bitlen \<lfloor>x\<rfloor>" by (rule bitlen_nonneg)
  ultimately show ?thesis
    using True by (simp add: floor_log2_def power_int_def)
next
  case False
  assume pos: "0 < x"
  with False have y: "1 < 1 / x" by simp
  let ?m = "\<lceil>1 / x\<rceil> - 1"
  have m: "0 < ?m" using y by linarith
  have k: "1 \<le> bitlen ?m" using m by (simp add: bitlen_alt_def)
  from bitlen_bounds [OF m] have "2 ^ nat (bitlen ?m - 1) \<le> ?m" ..
  then have "(2::real) ^ nat (bitlen ?m - 1) \<le> of_int ?m"
    by (metis of_int_le_iff of_int_numeral of_int_power)
  moreover have "of_int ?m < 1 / x" by linarith
  ultimately have "(2::real) ^ nat (bitlen ?m - 1) < 1 / x" by linarith
  then have "x < 1 / 2 ^ nat (bitlen ?m - 1)"
    using pos by (simp add: field_simps)
  moreover have "2 powi (- bitlen ?m + 1) = 1 / (2::real) ^ nat (bitlen ?m - 1)"
  proof (cases "bitlen ?m = 1")
    case True
    then show ?thesis by simp
  next
    case False
    with k have "- bitlen ?m + 1 < 0" by simp
    then show ?thesis
      by (simp add: power_int_def field_simps)
  qed
  ultimately show ?thesis
    using False by (simp add: floor_log2_def)
qed

lemma round_even_error: "\<bar>of_int (round_even x) - x\<bar> \<le> 1 / 2"
  unfolding round_even_def Let_def by (simp split: if_splits)

lemma round_double_error:
  "\<bar>round_double x - x\<bar> \<le> max (\<bar>x\<bar> / 2 ^ 53) (2 powi (- 1075))"
proof (cases "x = 0")
  case True
  then show ?thesis by (simp add: round_double_def)
next
  case False
  define l where "l = floor_log2 \<bar>x\<bar>"
  define e where "e = max (l - 52) (- 1074)"
  have p: "(0::real) < 2 powi e" by simp
  have rd: "round_double x = of_int (round_even (x / 2 powi e)) * 2 powi e"
    using False by (simp add: round_double_def e_def l_def Let_def)
  have "round_double x - x = (of_int (round_even (x / 2 powi e)) - x / 2 powi e) * 2 powi e"
    unfolding rd by (simp add: algebra_simps)
  then have "\<bar>round_double x - x\<bar> = \<bar>of_int (round_even (x / 2 powi e)) - x / 2 powi e\<bar> * 2 powi e"
    by (simp add: abs_mult)
  also have "\<dots> \<le> 1 / 2 * 2 powi e"
    by (intro mult_right_mono round_even_error) simp
  also have "\<dots> = 2 powi (e - 1)"
    by (simp add: power_int_diff)
  finally have b: "\<bar>round_double x - x\<bar> \<le> 2 powi (e - 1)" .
  show ?thesis
  proof (cases "l - 52 \<le> - 1074")
    case True
    then have "e - 1 = - 1075" by (simp add: e_def)
    with b have "\<bar>round_double x - x\<bar> \<le> 2 powi (- 1075)" by (simp only:)
    then show ?thesis by (rule max.coboundedI2)
  next
    case False
    then have "e = l - 52" by (simp add: e_def)
    then have "2 powi (e - 1) = 2 powi l / (2::real) ^ 53"
      by (simp add: power_int_diff)
    also have "\<dots> \<le> \<bar>x\<bar> / 2 ^ 53"
      using floor_log2_lower [of "\<bar>x\<bar>"] \<open>x \<noteq> 0\<close>
      by (simp add: l_def divide_right_mono)
    finally have "\<bar>round_double x - x\<bar> \<le> \<bar>x\<bar> / 2 ^ 53" using b by linarith
    then show ?thesis by (rule max.coboundedI1)
  qed
qed

lemma round_even_of_int: "round_even (of_int k) = k"
  by (simp add: round_even_def)

lemma round_double_exact:
  assumes m: "\<bar>m\<bar> < 2 ^ 53" and e: "- 1074 \<le> e"
  shows "round_double (of_int m * 2 powi e) = of_int m * 2 powi e"
proof (cases "m = 0")
  case True
  then show ?thesis by (simp add: round_double_def)
next
  case False
  let ?x = "of_int m * 2 powi e :: real"
  define l where "l = floor_log2 \<bar>?x\<bar>"
  define d where "d = max (l - 52) (- 1074)"
  have x0: "?x \<noteq> 0" using False by simp
  then have xpos: "0 < \<bar>?x\<bar>" by simp
  have "\<bar>?x\<bar> = of_int \<bar>m\<bar> * 2 powi e"
    by (simp add: abs_mult)
  also have "\<dots> < 2 ^ 53 * 2 powi e"
  proof -
    have "(of_int \<bar>m\<bar> :: real) < 2 ^ 53"
      using m by (metis of_int_less_iff of_int_numeral of_int_power)
    then show ?thesis by (simp add: mult_strict_right_mono)
  qed
  also have "\<dots> = 2 powi (e + 53)"
    by (simp add: power_int_add)
  finally have up: "\<bar>?x\<bar> < 2 powi (e + 53)" .
  have "2 powi l \<le> \<bar>?x\<bar>"
    unfolding l_def by (rule floor_log2_lower [OF xpos])
  with up have "(2::real) powi l < 2 powi (e + 53)" by linarith
  then have "l < e + 53"
    using power_int_increasing [of "e + 53" l "2::real"] by (cases "l < e + 53") auto
  with e have de: "d \<le> e" by (simp add: d_def)
  then obtain n where n: "e = d + int n"
    by (metis nat_0_le diff_ge_0_iff_ge add_diff_cancel_left' add.commute diff_add_cancel)
  have "?x / 2 powi d = of_int m * 2 powi (e - d)"
    by (simp add: power_int_diff)
  also have "\<dots> = of_int (m * 2 ^ n)"
    using n by (simp add: power_int_def)
  finally have q: "?x / 2 powi d = of_int (m * 2 ^ n)" .
  have "round_double ?x = of_int (round_even (?x / 2 powi d)) * 2 powi d"
    using x0 by (simp add: round_double_def d_def l_def Let_def)
  also have "\<dots> = of_int (m * 2 ^ n) * 2 powi d"
    unfolding q round_even_of_int ..
  also have "\<dots> = ?x"
    unfolding n by (simp add: power_int_add)
  finally show ?thesis .
qed

lemma bitlen_numeral: "bitlen (numeral k) = bitlen (numeral k div 2) + 1"
  by (subst compute_bitlen) simp

lemma bitlen_one: "bitlen 1 = 1"
  by (subst compute_bitlen) simp

lemmas double_eval =
  to_number_def round_double_def floor_log2_def round_even_def Let_def bitlen_numeral bitlen_one

lemma to_number_finite:
  "to_number x = Finite p \<Longrightarrow> p = round_double x"
  by (simp add: to_number_def Let_def split: if_splits)

lemma to_number_error:
  assumes "to_number x = Finite p"
  shows "\<bar>p - x\<bar> \<le> max (\<bar>x\<bar> / 2 ^ 53) (2 powi (- 1075))"
  unfolding to_number_finite [OF assms] by (rule round_double_error)

lemma to_number_exact:
  assumes m: "\<bar>m\<bar> < 2 ^ 53" and e: "- 1074 \<le> e" and x: "x = of_int m * 2 powi e"
    and fin: "\<bar>x\<bar> < 2 ^ 1024"
  shows "to_number x = Finite x"
proof -
  have "round_double x = x"
    unfolding x by (rule round_double_exact [OF m e])
  with fin show ?thesis
    by (simp only: to_number_def Let_def) (simp only: not_le [symmetric] if_False)
qed

lemma to_number_of_int:
  assumes "\<bar>k\<bar> < 2 ^ 53"
  shows "to_number (of_int k) = Finite (of_int k)"
proof (rule to_number_exact [where m = k and e = 0])
  show "\<bar>k\<bar> < 2 ^ 53" by fact
  show "- 1074 \<le> (0::int)" by simp
  show "(of_int k :: real) = of_int k * 2 powi 0" by simp
  have "\<bar>of_int k :: real\<bar> < 2 ^ 53"
    using assms by (metis of_int_abs of_int_less_iff of_int_numeral of_int_power)
  also have "(2::real) ^ 53 \<le> 2 ^ 1024"
    by (rule power_increasing) simp_all
  finally show "\<bar>of_int k :: real\<bar> < 2 ^ 1024" .
qed

lemma subtotal_fold_exact:
  assumes "list_all (\<lambda>item. price item \<in> \<int>) c" and "a \<in> \<int>"
    and "\<bar>a\<bar> + (\<Sum>item\<leftarrow>c. \<bar>price item * of_int (quantity item)\<bar>) < 2 ^ 53"
  shows "foldl (\<lambda>sum item.
            num_add sum (num_mul (Finite (price item)) (Finite (of_int (quantity item)))))
          (Finite a) c =
         Finite (a + (\<Sum>item\<leftarrow>c. price item * of_int (quantity item)))"
  using assms
proof (induction c arbitrary: a)
  case Nil
  then show ?case by simp
next
  case (Cons item c)
  let ?t = "price item * of_int (quantity item)"
  let ?rest = "\<Sum>item\<leftarrow>c. \<bar>price item * of_int (quantity item)\<bar>"
  have rest: "0 \<le> ?rest" by (rule sum_list_nonneg) auto
  from Cons.prems(1) have "price item \<in> \<int>" by simp
  then have "?t \<in> \<int>" by (simp add: Ints_mult)
  then obtain k where k: "?t = of_int k" by (auto elim: Ints_cases)
  from Cons.prems(2) obtain j where j: "a = of_int j" by (auto elim: Ints_cases)
  from Cons.prems(3) have bound: "\<bar>a\<bar> + \<bar>?t\<bar> + ?rest < 2 ^ 53" by simp
  with rest have "\<bar>?t\<bar> < 2 ^ 53" by linarith
  then have "\<bar>k\<bar> < 2 ^ 53"
    unfolding k by (metis of_int_abs of_int_less_iff of_int_numeral of_int_power)
  then have mul: "to_number ?t = Finite ?t"
    using to_number_of_int [of k] by (simp add: k)
  from bound rest have "\<bar>a + ?t\<bar> < 2 ^ 53" by linarith
  then have "\<bar>j + k\<bar> < 2 ^ 53"
    unfolding j k by (metis of_int_abs of_int_add of_int_less_iff of_int_numeral of_int_power)
  then have add: "to_number (a + ?t) = Finite (a + ?t)"
    using to_number_of_int [of "j + k"] by (simp add: j k)
  have "foldl (\<lambda>sum item.
            num_add sum (num_mul (Finite (price item)) (Finite (of_int (quantity item)))))
          (Finite (a + ?t)) c =
         Finite (a + ?t + (\<Sum>item\<leftarrow>c. price item * of_int (quantity item)))"
  proof (rule Cons.IH)
    show "list_all (\<lambda>item. price item \<in> \<int>) c" using Cons.prems(1) by simp
    show "a + ?t \<in> \<int>" using \<open>?t \<in> \<int>\<close> Cons.prems(2) by (rule Ints_add [rotated])
    show "\<bar>a + ?t\<bar> + ?rest < 2 ^ 53" using bound by linarith
  qed
  then show ?case
    by (simp add: mul add add.assoc)
qed

lemma subtotal_snoc:
  "subtotal (calculateTotals (c @ [item])) =
     num_add (subtotal (calculateTotals c))
       (num_mul (Finite (price item)) (Finite (of_int (quantity item))))"
  by (simp add: calculateTotals_def Let_def)

lemma taxRate_value: "taxRate = Finite (5764607523034235 / 2 ^ 56)"
  by (simp add: taxRate_def double_eval)

lemma calculateTotals_eqI:
  assumes "foldl (\<lambda>sum item.
              num_add sum (num_mul (Finite (price item)) (Finite (of_int (quantity item)))))
            (Finite 0) c = s"
    and "num_mul s taxRate = x" and "num_add s x = t"
  shows "calculateTotals c = \<lparr>subtotal = s, tax = x, total = t\<rparr>"
  using assms by (simp add: calculateTotals_def Let_def)

lemma scenario_totals:
  assumes "prod_price a = 10" and "prod_price b = 5" and "prod_id a \<noteq> prod_id b"
  shows "calculateTotals (addToCart b (addToCart a (addToCart a []))) =
     \<lparr>subtotal = Finite 25, tax = Finite 2, total = Finite 27\<rparr>"
proof -
  have cart: "addToCart b (addToCart a (addToCart a [])) =
      [\<lparr>product_id = prod_id a, name = prod_name a, price = 10, quantity = 2\<rparr>,
       \<lparr>product_id = prod_id b, name = prod_name b, price = 5, quantity = 1\<rparr>]"
    using assms by (simp add: addToCart_def)
  show ?thesis
    unfolding cart
  proof (rule calculateTotals_eqI)
    show "foldl (\<lambda>sum item.
              num_add sum (num_mul (Finite (price item)) (Finite (of_int (quantity item)))))
            (Finite 0)
            [\<lparr>product_id = prod_id a, name = prod_name a, price = 10, quantity = 2\<rparr>,
             \<lparr>product_id = prod_id b, name = prod_name b, price = 5, quantity = 1\<rparr>] =
          Finite 25"
      by (simp only: foldl_Cons foldl_Nil cart_item.simps) (simp add: double_eval)
    show "num_mul (Finite 25) taxRate = Finite 2"
      by (simp add: taxRate_value double_eval)
    show "num_add (Finite 25) (Finite 2) = Finite 27"
      by (simp add: double_eval)
  qed
qed

lemma totals_at_19_99:
  "calculateTotals
     [\<lparr>product_id = 1, name = ''Widget'', price = 5626684784446013 / 2 ^ 48, quantity = 1\<rparr>] =
   \<lparr>subtotal = Finite (5626684784446013 / 2 ^ 48),
    tax = Finite (7202156524090897 / 2 ^ 52),
    total = Finite (3038409783600847 / 2 ^ 47)\<rparr>"
proof (rule calculateTotals_eqI)
  show "foldl (\<lambda>sum item.
            num_add sum (num_mul (Finite (price item)) (Finite (of_int (quantity item)))))
          (Finite 0)
          [\<lparr>product_id = 1, name = ''Widget'', price = 5626684784446013 / 2 ^ 48, quantity = 1\<rparr>] =
        Finite (5626684784446013 / 2 ^ 48)"
    by (simp only: foldl_Cons foldl_Nil cart_item.simps) (simp add: double_eval)
  show "num_mul (Finite (5626684784446013 / 2 ^ 48)) taxRate = Finite (7202156524090897 / 2 ^ 52)"
    by (simp add: taxRate_value double_eval)
  show "num_add (Finite (5626684784446013 / 2 ^ 48)) (Finite (7202156524090897 / 2 ^ 52)) =
        Finite (3038409783600847 / 2 ^ 47)"
    by (simp add: double_eval)
qed

section \<open>Lemmas about checkout and lookup\<close>

lemma request_empty:
  "cart s = [] \<Longrightarrow> processCheckout_request s = ([Alert ''Cart is empty!''], None)"
  by (simp add: processCheckout_request_def)

lemma request_nonempty:
  "cart s \<noteq> [] \<Longrightarrow>
   processCheckout_request s =
     ([HttpPost (API_BASE @ ''/checkout'') (checkoutData s)], Some (checkoutData s))"
  by (simp add: processCheckout_request_def)

lemma processCheckout_empty:
  "cart s = [] \<Longrightarrow> processCheckout reply catalog s = (s, [Alert ''Cart is empty!''])"
  by (simp add: processCheckout_def request_empty)

lemma processCheckout_rejected:
  "cart s \<noteq> [] \<Longrightarrow>
   processCheckout (Inl error) catalog s =
     (s, [HttpPost (API_BASE @ ''/checkout'') (checkoutData s),
          ConsoleError ''Checkout error:'', Alert (checkoutErrorMessage error)])"
  by (simp add: processCheckout_def request_nonempty processCheckout_reply_def)

lemma processCheckout_confirmed:
  "cart s \<noteq> [] \<Longrightarrow>
   processCheckout (Inr data) catalog s =
     (s\<lparr>currentInvoice := Some data, showReceipt := True, cart := [],
        products := (case catalog of Inr ps \<Rightarrow> ps | Inl error \<Rightarrow> products s)\<rparr>,
      HttpPost (API_BASE @ ''/checkout'') (checkoutData s) # HttpGet (API_BASE @ ''/products'') #
        (case catalog of Inr ps \<Rightarrow> [] | Inl error \<Rightarrow> [ConsoleError ''Error loading products:'']))"
  by (simp add: processCheckout_def request_nonempty processCheckout_reply_def loadProducts_def
      split: sum.split)

lemma processCheckout_in_two_steps:
  "checkoutAnswered reply catalog (clickCheckout \<lparr>ui = s, inflight = [], trace = seen\<rparr>) =
     \<lparr>ui = fst (processCheckout reply catalog s), inflight = [],
      trace = seen @ snd (processCheckout reply catalog s)\<rparr>"
  by (cases "cart s = []")
    (simp_all add: checkoutAnswered_def clickCheckout_def processCheckout_def request_empty
      request_nonempty split: prod.split)

lemma or_else_cases:
  "or_else a b = (if a = None \<or> a = Some [] then b else the a)"
  by (cases a) (simp_all add: or_else_def)

lemma search_failed_state: "fst (searchByBarcode (Inl error) s) = s"
  by (simp add: searchByBarcode_def)

lemma search_blank:
  "trim (barcodeInput s) = [] \<Longrightarrow> searchByBarcode reply s = (s, [])"
  by (simp add: searchByBarcode_def)

lemma search_failed:
  "trim (barcodeInput s) \<noteq> [] \<Longrightarrow>
   searchByBarcode (Inl error) s =
     (s, [HttpGetAt (API_BASE @ ''/products/'') (barcodeInput s),
          Alert (searchErrorMessage error), ConsoleError ''Barcode search error:''])"
  by (simp add: searchByBarcode_def)

lemma trim_unknown: "trim (code_units ''UNKNOWN'') \<noteq> []"
  by (simp add: trim_def white_space_def code_units_def)

section \<open>The claims\<close>

text \<open>
  Claim C1. A checkout attempt on a cart with at least one line sends the POST and leaves
  the component's state as it was while the request is outstanding. The cart is cleared
  and the catalog fetched again if and only if the backend answers with an invoice; a
  failed answer gives back the state before the attempt. After a confirmed checkout the
  cart is empty, and a further attempt (with no product added in between) only alerts
  ``Cart is empty!''.
\<close>

theorem checkout_clears_cart_only_on_success:
  "cart s \<noteq> [] \<longrightarrow>
     ((\<exists>data. reply = Inr data) \<longleftrightarrow>
        cart (fst (processCheckout reply catalog s)) = []
        \<and> HttpGet (API_BASE @ ''/products'') \<in> set (snd (processCheckout reply catalog s)))
     \<and> processCheckout_request s =
         ([HttpPost (API_BASE @ ''/checkout'') (checkoutData s)], Some (checkoutData s))
     \<and> ui (clickCheckout \<lparr>ui = s, inflight = pending, trace = seen\<rparr>) = s
     \<and> fst (processCheckout (Inl error) catalog s) = s
     \<and> cart (fst (processCheckout (Inr data) catalog s)) = []
     \<and> processCheckout reply' catalog' (fst (processCheckout (Inr data) catalog s)) =
         (fst (processCheckout (Inr data) catalog s), [Alert ''Cart is empty!''])"
proof
  assume ne: "cart s \<noteq> []"
  have iff: "(\<exists>data. reply = Inr data) \<longleftrightarrow>
        cart (fst (processCheckout reply catalog s)) = []
        \<and> HttpGet (API_BASE @ ''/products'') \<in> set (snd (processCheckout reply catalog s))"
  proof (cases reply)
    case (Inl error)
    then show ?thesis using ne by (simp add: processCheckout_rejected)
  next
    case (Inr data)
    then show ?thesis using ne by (simp add: processCheckout_confirmed)
  qed
  have click: "ui (clickCheckout \<lparr>ui = s, inflight = pending, trace = seen\<rparr>) = s"
    by (simp add: clickCheckout_def request_nonempty [OF ne])
  have empty: "cart (fst (processCheckout (Inr data) catalog s)) = []"
    by (simp add: processCheckout_confirmed [OF ne])
  from iff request_nonempty [OF ne] click empty processCheckout_empty [OF empty]
  show "((\<exists>data. reply = Inr data) \<longleftrightarrow>
        cart (fst (processCheckout reply catalog s)) = []
        \<and> HttpGet (API_BASE @ ''/products'') \<in> set (snd (processCheckout reply catalog s)))
     \<and> processCheckout_request s =
         ([HttpPost (API_BASE @ ''/checkout'') (checkoutData s)], Some (checkoutData s))
     \<and> ui (clickCheckout \<lparr>ui = s, inflight = pending, trace = seen\<rparr>) = s
     \<and> fst (processCheckout (Inl error) catalog s) = s
     \<and> cart (fst (processCheckout (Inr data) catalog s)) = []
     \<and> processCheckout reply' catalog' (fst (processCheckout (Inr data) catalog s)) =
         (fst (processCheckout (Inr data) catalog s), [Alert ''Cart is empty!''])"
    by (simp add: processCheckout_rejected [OF ne])
qed

text \<open>C1, at concrete inputs.\<close>

theorem checkout_clears_cart_only_on_success_witness:
  "cart open_sale \<noteq> []
   \<and> cart (fst (processCheckout (Inr receipt) (Inr [widget]) open_sale)) = []
   \<and> HttpGet ''http://localhost:8000/products''
        \<in> set (snd (processCheckout (Inr receipt) (Inr [widget]) open_sale))
   \<and> fst (processCheckout (Inl network_down) (Inr [widget]) open_sale) = open_sale
   \<and> snd (processCheckout (Inr receipt) (Inr [widget])
            (fst (processCheckout (Inr receipt) (Inr [widget]) open_sale))) =
       [Alert ''Cart is empty!'']"
proof -
  have ne: "cart open_sale \<noteq> []" by (simp add: open_sale_def)
  show ?thesis
    using ne checkout_clears_cart_only_on_success
      [where s = open_sale and reply = "Inr receipt" and catalog = "Inr [widget]"
         and error = network_down and data = receipt and reply' = "Inr receipt"
         and catalog' = "Inr [widget]" and pending = "[]" and seen = "[]"]
    by (simp add: API_BASE_def)
qed

text \<open>
  Claim C2. When the checkout request fails, the state (and so the cart) after the attempt
  is the state before it, no request stays outstanding, and the operator is alerted with
  \<open>checkoutErrorMessage\<close>. For
  a failure reported by the HTTP client that message is the \<^verbatim>\<open>detail\<close> of the response
  body when there is a non-empty one, else the client's own message when that is
  non-empty, else ``Checkout failed''. (A thrown \<^verbatim>\<open>Error\<close> that is not the HTTP
  client's shows its message as it is; any other thrown value shows ``Checkout failed''.)
\<close>

theorem rejected_checkout_keeps_cart:
  "(cart s \<noteq> [] \<longrightarrow>
      processCheckout (Inl error) catalog s =
        (s, [HttpPost (API_BASE @ ''/checkout'') (checkoutData s),
             ConsoleError ''Checkout error:'', Alert (checkoutErrorMessage error)]))
   \<and> cart (fst (processCheckout (Inl error) catalog s)) = cart s
   \<and> checkoutAnswered (Inl error) catalog (clickCheckout \<lparr>ui = s, inflight = [], trace = []\<rparr>) =
       \<lparr>ui = s, inflight = [], trace = snd (processCheckout (Inl error) catalog s)\<rparr>
   \<and> (response_detail e = Some d \<and> d \<noteq> [] \<longrightarrow> checkoutErrorMessage (AxiosError e) = d)
   \<and> ((response_detail e = None \<or> response_detail e = Some []) \<and> message e \<noteq> [] \<longrightarrow>
        checkoutErrorMessage (AxiosError e) = message e)
   \<and> ((response_detail e = None \<or> response_detail e = Some []) \<and> message e = [] \<longrightarrow>
        checkoutErrorMessage (AxiosError e) = ''Checkout failed'')"
proof (intro conjI impI)
  assume "cart s \<noteq> []"
  then show "processCheckout (Inl error) catalog s =
        (s, [HttpPost (API_BASE @ ''/checkout'') (checkoutData s),
             ConsoleError ''Checkout error:'', Alert (checkoutErrorMessage error)])"
    by (rule processCheckout_rejected)
next
  show "cart (fst (processCheckout (Inl error) catalog s)) = cart s"
    by (cases "cart s = []") (simp_all add: processCheckout_empty processCheckout_rejected)
next
  have "fst (processCheckout (Inl error) catalog s) = s"
    by (cases "cart s = []") (simp_all add: processCheckout_empty processCheckout_rejected)
  then show "checkoutAnswered (Inl error) catalog
        (clickCheckout \<lparr>ui = s, inflight = [], trace = []\<rparr>) =
       \<lparr>ui = s, inflight = [], trace = snd (processCheckout (Inl error) catalog s)\<rparr>"
    by (simp add: processCheckout_in_two_steps)
next
  assume "response_detail e = Some d \<and> d \<noteq> []"
  then show "checkoutErrorMessage (AxiosError e) = d"
    by (simp add: checkoutErrorMessage_def or_else_cases)
next
  assume "(response_detail e = None \<or> response_detail e = Some []) \<and> message e \<noteq> []"
  then show "checkoutErrorMessage (AxiosError e) = message e"
    by (auto simp: checkoutErrorMessage_def or_else_cases)
next
  assume "(response_detail e = None \<or> response_detail e = Some []) \<and> message e = []"
  then show "checkoutErrorMessage (AxiosError e) = ''Checkout failed''"
    by (auto simp: checkoutErrorMessage_def or_else_cases)
qed

text \<open>C2, at concrete inputs.\<close>

theorem rejected_checkout_keeps_cart_witness:
  "processCheckout (Inl insufficient_stock) (Inr [widget]) open_sale =
     (open_sale, [HttpPost ''http://localhost:8000/checkout'' (checkoutData open_sale),
                  ConsoleError ''Checkout error:'', Alert ''Insufficient stock for Widget''])
   \<and> checkoutErrorMessage network_down = ''Network Error''
   \<and> checkoutErrorMessage (AxiosError \<lparr>response = None, message = []\<rparr>) = ''Checkout failed''"
proof -
  have ne: "cart open_sale \<noteq> []" by (simp add: open_sale_def)
  show ?thesis
    using ne
      rejected_checkout_keeps_cart
        [where s = open_sale and error = insufficient_stock and catalog = "Inr [widget]"
           and e = "\<lparr>response = Some \<lparr>status = 400, detail = Some ''Insufficient stock for Widget''\<rparr>,
                     message = ''Request failed with status code 400''\<rparr>"
           and d = "''Insufficient stock for Widget''"]
      rejected_checkout_keeps_cart
        [where s = open_sale and error = network_down and catalog = "Inr [widget]"
           and e = "\<lparr>response = None, message = ''Network Error''\<rparr>"]
      rejected_checkout_keeps_cart
        [where s = open_sale and error = network_down and catalog = "Inr [widget]"
           and e = "\<lparr>response = None, message = []\<rparr>"]
    by (simp add: API_BASE_def insufficient_stock_def network_down_def response_detail_def)
qed

text \<open>
  Claim C3. A checkout attempt on an empty cart alerts ``Cart is empty!'' and does nothing
  else: no request is sent, no request becomes outstanding, the state is unchanged.
\<close>

theorem empty_cart_checkout_is_local:
  "cart s = [] \<longrightarrow>
     processCheckout reply catalog s = (s, [Alert ''Cart is empty!''])
     \<and> processCheckout_request s = ([Alert ''Cart is empty!''], None)
     \<and> clickCheckout \<lparr>ui = s, inflight = pending, trace = seen\<rparr> =
         \<lparr>ui = s, inflight = pending, trace = seen @ [Alert ''Cart is empty!'']\<rparr>"
  by (simp add: processCheckout_empty request_empty clickCheckout_def)

text \<open>C3, at concrete inputs.\<close>

theorem empty_cart_checkout_is_local_witness:
  "cart initial_state = []
   \<and> processCheckout (Inr receipt) (Inr [widget]) initial_state =
       (initial_state, [Alert ''Cart is empty!''])
   \<and> inflight (clickCheckout \<lparr>ui = initial_state, inflight = [], trace = []\<rparr>) = []"
proof -
  have e: "cart initial_state = []" by (simp add: initial_state_def)
  show ?thesis
    using e empty_cart_checkout_is_local
      [where s = initial_state and reply = "Inr receipt" and catalog = "Inr [widget]"
         and pending = "[]" and seen = "[]"]
    by simp
qed

text \<open>
  Claim C4. \<open>addToCart\<close> adds one to the quantity of the line of the product when the
  cart has one, and otherwise appends a line of quantity 1 with the product's identifier,
  name and price. Adding the same product \<open>N > 0\<close> times to a cart that has no line for it
  leaves exactly one line for it, of quantity \<open>N\<close>.
\<close>

theorem addToCart_merges_lines:
  "(prod_id p \<in> set (map product_id c) \<longrightarrow>
      addToCart p c =
        map (\<lambda>item. if product_id item = prod_id p
                     then item\<lparr>quantity := quantity item + 1\<rparr> else item) c)
   \<and> (prod_id p \<notin> set (map product_id c) \<longrightarrow>
      addToCart p c =
        c @ [\<lparr>product_id = prod_id p, name = prod_name p, price = prod_price p, quantity = 1\<rparr>])
   \<and> (prod_id p \<notin> set (map product_id c) \<and> 0 < N \<longrightarrow>
      filter (\<lambda>item. product_id item = prod_id p) ((addToCart p ^^ N) c) =
        [\<lparr>product_id = prod_id p, name = prod_name p, price = prod_price p, quantity = int N\<rparr>])"
proof (intro conjI impI)
  assume "prod_id p \<in> set (map product_id c)"
  then show "addToCart p c =
        map (\<lambda>item. if product_id item = prod_id p
                     then item\<lparr>quantity := quantity item + 1\<rparr> else item) c"
    by (rule addToCart_present)
next
  assume "prod_id p \<notin> set (map product_id c)"
  then show "addToCart p c =
        c @ [\<lparr>product_id = prod_id p, name = prod_name p, price = prod_price p, quantity = 1\<rparr>]"
    by (rule addToCart_absent)
next
  assume a: "prod_id p \<notin> set (map product_id c) \<and> 0 < N"
  then obtain n where N: "N = Suc n" by (cases N) auto
  from a have absent: "prod_id p \<notin> set (map product_id c)" ..
  show "filter (\<lambda>item. product_id item = prod_id p) ((addToCart p ^^ N) c) =
        [\<lparr>product_id = prod_id p, name = prod_name p, price = prod_price p, quantity = int N\<rparr>]"
    unfolding N addToCart_repeat [OF absent]
    by (rule filter_own_snoc [OF absent]) simp
qed

text \<open>C4, at concrete inputs.\<close>

theorem addToCart_merges_lines_witness:
  "prod_id \<lparr>prod_id = 7, prod_name = ''Widget'', prod_price = 10, stock = 3,
            barcode = None, created_at = ''2024-01-01''\<rparr> \<notin> set (map product_id [])
   \<and> filter (\<lambda>item. product_id item = 7)
        ((addToCart \<lparr>prod_id = 7, prod_name = ''Widget'', prod_price = 10, stock = 3,
                     barcode = None, created_at = ''2024-01-01''\<rparr> ^^ 3) []) =
       [\<lparr>product_id = 7, name = ''Widget'', price = 10, quantity = 3\<rparr>]
   \<and> addToCart \<lparr>prod_id = 7, prod_name = ''Gadget'', prod_price = 12, stock = 3,
                   barcode = None, created_at = ''2024-01-01''\<rparr>
        [\<lparr>product_id = 7, name = ''Widget'', price = 10, quantity = 3\<rparr>] =
       [\<lparr>product_id = 7, name = ''Widget'', price = 10, quantity = 4\<rparr>]"
proof -
  let ?p = "\<lparr>prod_id = 7, prod_name = ''Widget'', prod_price = 10, stock = 3,
               barcode = None, created_at = ''2024-01-01''\<rparr>"
  let ?g = "\<lparr>prod_id = 7, prod_name = ''Gadget'', prod_price = 12, stock = 3,
               barcode = None, created_at = ''2024-01-01''\<rparr>"
  let ?c = "[\<lparr>product_id = 7, name = ''Widget'', price = 10, quantity = 3\<rparr>]"
  show ?thesis
    using addToCart_merges_lines [of ?p "[]" 3] addToCart_merges_lines [of ?g ?c 1]
    by simp
qed

text \<open>
  Claim C5. \<open>updateQuantity\<close> leaves the cart as it is when it has no line for the
  product. Otherwise the new quantity is the line's quantity plus the change: when that
  is zero or negative the line is removed, and when it is positive the line stays in
  place with the new quantity. A cart whose quantities are all at least 1 stays so. A
  change of \<open>-1\<close> on a cart of one line of quantity 1 gives the empty cart.
\<close>

theorem updateQuantity_changes_or_removes:
  "(productId \<notin> set (map product_id c) \<longrightarrow> updateQuantity productId change c = c)
   \<and> (find (\<lambda>item. product_id item = productId) c = Some e \<and> quantity e + change \<le> 0 \<longrightarrow>
        updateQuantity productId change c = filter (\<lambda>item. product_id item \<noteq> productId) c
        \<and> productId \<notin> set (map product_id (updateQuantity productId change c)))
   \<and> (find (\<lambda>item. product_id item = productId) c = Some e \<and> 0 < quantity e + change \<longrightarrow>
        updateQuantity productId change c =
          map (\<lambda>item. if product_id item = productId
                       then item\<lparr>quantity := quantity e + change\<rparr> else item) c
        \<and> find (\<lambda>item. product_id item = productId) (updateQuantity productId change c) =
            Some (e\<lparr>quantity := quantity e + change\<rparr>))
   \<and> (list_all (\<lambda>item. 1 \<le> quantity item) c \<longrightarrow>
        list_all (\<lambda>item. 1 \<le> quantity item) (updateQuantity productId change c))
   \<and> updateQuantity productId (- 1) [\<lparr>product_id = productId, name = n, price = pr, quantity = 1\<rparr>] = []"
proof (intro conjI impI)
  assume "productId \<notin> set (map product_id c)"
  then have "find (\<lambda>item. product_id item = productId) c = None"
    by (simp add: find_None_iff_ids)
  then show "updateQuantity productId change c = c"
    by (rule updateQuantity_absent)
next
  assume a: "find (\<lambda>item. product_id item = productId) c = Some e \<and> quantity e + change \<le> 0"
  then show eq: "updateQuantity productId change c = filter (\<lambda>item. product_id item \<noteq> productId) c"
    by (simp add: updateQuantity_drop)
  show "productId \<notin> set (map product_id (updateQuantity productId change c))"
    unfolding eq by auto
next
  assume a: "find (\<lambda>item. product_id item = productId) c = Some e \<and> 0 < quantity e + change"
  then show eq: "updateQuantity productId change c =
          map (\<lambda>item. if product_id item = productId
                       then item\<lparr>quantity := quantity e + change\<rparr> else item) c"
    by (simp add: updateQuantity_keep)
  from a have f: "find (\<lambda>item. product_id item = productId) c = Some e" ..
  show "find (\<lambda>item. product_id item = productId) (updateQuantity productId change c) =
            Some (e\<lparr>quantity := quantity e + change\<rparr>)"
    unfolding eq by (rule find_map_bump [OF f])
next
  assume "list_all (\<lambda>item. 1 \<le> quantity item) c"
  then show "list_all (\<lambda>item. 1 \<le> quantity item) (updateQuantity productId change c)"
    by (rule qty_updateQuantity)
next
  show "updateQuantity productId (- 1) [\<lparr>product_id = productId, name = n, price = pr, quantity = 1\<rparr>] = []"
    by (simp add: updateQuantity_def)
qed

text \<open>C5, at concrete inputs.\<close>

theorem updateQuantity_changes_or_removes_witness:
  "updateQuantity 9 1 [\<lparr>product_id = 7, name = ''Widget'', price = 10, quantity = 2\<rparr>] =
     [\<lparr>product_id = 7, name = ''Widget'', price = 10, quantity = 2\<rparr>]
   \<and> updateQuantity 7 (- 5) [\<lparr>product_id = 7, name = ''Widget'', price = 10, quantity = 2\<rparr>,
                             \<lparr>product_id = 8, name = ''Gadget'', price = 5, quantity = 1\<rparr>] =
     [\<lparr>product_id = 8, name = ''Gadget'', price = 5, quantity = 1\<rparr>]
   \<and> updateQuantity 8 3 [\<lparr>product_id = 7, name = ''Widget'', price = 10, quantity = 2\<rparr>,
                         \<lparr>product_id = 8, name = ''Gadget'', price = 5, quantity = 1\<rparr>] =
     [\<lparr>product_id = 7, name = ''Widget'', price = 10, quantity = 2\<rparr>,
      \<lparr>product_id = 8, name = ''Gadget'', price = 5, quantity = 4\<rparr>]
   \<and> list_all (\<lambda>item. 1 \<le> quantity item)
        (updateQuantity 7 (- 1) [\<lparr>product_id = 7, name = ''Widget'', price = 10, quantity = 2\<rparr>])"
proof -
  let ?w = "\<lparr>product_id = 7, name = ''Widget'', price = 10, quantity = 2\<rparr>"
  let ?g = "\<lparr>product_id = 8, name = ''Gadget'', price = 5, quantity = 1\<rparr>"
  show ?thesis
    using updateQuantity_changes_or_removes [where productId = 9 and c = "[?w]" and change = 1]
      updateQuantity_changes_or_removes [where productId = 7 and c = "[?w, ?g]" and e = ?w and change = "- 5"]
      updateQuantity_changes_or_removes [where productId = 8 and c = "[?w, ?g]" and e = ?g and change = 3]
      updateQuantity_changes_or_removes [where productId = 7 and c = "[?w]" and e = ?w and change = "- 1"]
    by simp
qed

text \<open>
  Claim C6. \<open>addToCart\<close>, \<open>updateQuantity\<close>, \<open>removeFromCart\<close> and \<open>clearCart\<close>
  preserve \<open>cart_ok\<close> (no two lines with the same product, every quantity at least 1),
  which the empty cart satisfies. The order of the lines is stable: \<open>addToCart\<close> keeps
  the sequence of product identifiers or appends the new one at the end,
  \<open>updateQuantity\<close> keeps it or deletes the one identifier from it, \<open>removeFromCart\<close>
  deletes the one identifier, and the lines of the other products are left as they are.
\<close>

theorem cart_operations_preserve_invariants:
  "(cart_ok c \<longrightarrow>
      cart_ok (addToCart p c) \<and> cart_ok (updateQuantity productId change c)
      \<and> cart_ok (removeFromCart productId c) \<and> cart_ok (clearCart confirmed c))
   \<and> cart_ok []
   \<and> map product_id (addToCart p c) =
        (if prod_id p \<in> set (map product_id c) then map product_id c
         else map product_id c @ [prod_id p])
   \<and> filter (\<lambda>item. product_id item \<noteq> prod_id p) (addToCart p c) =
        filter (\<lambda>item. product_id item \<noteq> prod_id p) c
   \<and> map product_id (updateQuantity productId change c) =
        (case find (\<lambda>item. product_id item = productId) c of
           None \<Rightarrow> map product_id c
         | Some e \<Rightarrow> if quantity e + change \<le> 0
                     then filter (\<lambda>i. i \<noteq> productId) (map product_id c)
                     else map product_id c)
   \<and> filter (\<lambda>item. product_id item \<noteq> productId) (updateQuantity productId change c) =
        filter (\<lambda>item. product_id item \<noteq> productId) c
   \<and> removeFromCart productId c = filter (\<lambda>item. product_id item \<noteq> productId) c
   \<and> clearCart confirmed c = (if confirmed then [] else c)"
proof (intro conjI impI)
  assume ok: "cart_ok c"
  show "cart_ok (addToCart p c)" using ok by (rule cart_ok_addToCart)
  show "cart_ok (updateQuantity productId change c)" using ok by (rule cart_ok_updateQuantity)
  show "cart_ok (removeFromCart productId c)" using ok by (rule cart_ok_removeFromCart)
  show "cart_ok (clearCart confirmed c)" using ok by (rule cart_ok_clearCart)
next
  show "cart_ok []" by (simp add: cart_ok_def)
next
  show "map product_id (addToCart p c) =
        (if prod_id p \<in> set (map product_id c) then map product_id c
         else map product_id c @ [prod_id p])"
    by (rule ids_addToCart)
next
  show "filter (\<lambda>item. product_id item \<noteq> prod_id p) (addToCart p c) =
        filter (\<lambda>item. product_id item \<noteq> prod_id p) c"
    by (rule others_addToCart)
next
  show "map product_id (updateQuantity productId change c) =
        (case find (\<lambda>item. product_id item = productId) c of
           None \<Rightarrow> map product_id c
         | Some e \<Rightarrow> if quantity e + change \<le> 0
                     then filter (\<lambda>i. i \<noteq> productId) (map product_id c)
                     else map product_id c)"
    by (rule ids_updateQuantity)
next
  show "filter (\<lambda>item. product_id item \<noteq> productId) (updateQuantity productId change c) =
        filter (\<lambda>item. product_id item \<noteq> productId) c"
    by (rule others_updateQuantity)
next
  show "removeFromCart productId c = filter (\<lambda>item. product_id item \<noteq> productId) c"
    by (simp add: removeFromCart_def)
next
  show "clearCart confirmed c = (if confirmed then [] else c)"
    by (cases c) (simp_all add: clearCart_def)
qed

text \<open>C6, at concrete inputs.\<close>

theorem cart_operations_preserve_invariants_witness:
  "cart_ok [\<lparr>product_id = 7, name = ''Widget'', price = 10, quantity = 2\<rparr>,
            \<lparr>product_id = 8, name = ''Gadget'', price = 5, quantity = 1\<rparr>]
   \<and> cart_ok (addToCart \<lparr>prod_id = 9, prod_name = ''Gizmo'', prod_price = 3, stock = 1,
                         barcode = Some ''0123'', created_at = ''2024-01-01''\<rparr>
        [\<lparr>product_id = 7, name = ''Widget'', price = 10, quantity = 2\<rparr>,
         \<lparr>product_id = 8, name = ''Gadget'', price = 5, quantity = 1\<rparr>])
   \<and> cart_ok (updateQuantity 8 (- 1)
        [\<lparr>product_id = 7, name = ''Widget'', price = 10, quantity = 2\<rparr>,
         \<lparr>product_id = 8, name = ''Gadget'', price = 5, quantity = 1\<rparr>])
   \<and> map product_id (updateQuantity 7 (- 1)
        [\<lparr>product_id = 7, name = ''Widget'', price = 10, quantity = 2\<rparr>,
         \<lparr>product_id = 8, name = ''Gadget'', price = 5, quantity = 1\<rparr>]) = [7, 8]
   \<and> map product_id (addToCart \<lparr>prod_id = 9, prod_name = ''Gizmo'', prod_price = 3, stock = 1,
                         barcode = Some ''0123'', created_at = ''2024-01-01''\<rparr>
        [\<lparr>product_id = 7, name = ''Widget'', price = 10, quantity = 2\<rparr>,
         \<lparr>product_id = 8, name = ''Gadget'', price = 5, quantity = 1\<rparr>]) = [7, 8, 9]"
proof -
  let ?c = "[\<lparr>product_id = 7, name = ''Widget'', price = 10, quantity = 2\<rparr>,
            \<lparr>product_id = 8, name = ''Gadget'', price = 5, quantity = 1\<rparr>]"
  let ?p = "\<lparr>prod_id = 9, prod_name = ''Gizmo'', prod_price = 3, stock = 1,
                         barcode = Some ''0123'', created_at = ''2024-01-01''\<rparr>"
  have ok: "cart_ok ?c" by (simp add: cart_ok_def)
  show ?thesis
    using ok
      cart_operations_preserve_invariants
        [where c = ?c and p = ?p and productId = 8 and change = "- 1" and confirmed = True]
      cart_operations_preserve_invariants
        [where c = ?c and p = ?p and productId = 7 and change = "- 1" and confirmed = True]
    by simp
qed

text \<open>
  Claim C7, as the code has it. \<open>calculateTotals\<close> computes in double precision: the
  subtotal is accumulated line by line from zero, each price times quantity and each sum
  rounded to the nearest double; the tax is the subtotal times the double nearest to 0.08
  (which is \<open>5764607523034235 / 2^56\<close>), rounded; the total is the subtotal plus the tax,
  rounded. The subtotal is exactly the sum over the lines of price times quantity when
  the prices are whole numbers and the sum of the magnitudes stays below \<open>2^53\<close>. Tax
  and total, when finite, are within one rounding (a relative error of \<open>2^-53\<close>, or
  \<open>2^-1075\<close> absolute) of the exact product and sum of their operands, and the total is
  exactly subtotal plus tax when that sum is a double. Adding a product priced 10 twice
  and another product priced 5 once to the empty cart gives subtotal 25, tax 2 and
  total 27.
\<close>

theorem calculateTotals_rounds_to_double:
  "taxRate = Finite (5764607523034235 / 2 ^ 56)
   \<and> \<bar>5764607523034235 / 2 ^ 56 - 0.08\<bar> \<le> (0.08 :: real) / 2 ^ 53
   \<and> subtotal (calculateTotals []) = Finite 0
   \<and> subtotal (calculateTotals (c @ [item])) =
       num_add (subtotal (calculateTotals c))
         (num_mul (Finite (price item)) (Finite (of_int (quantity item))))
   \<and> tax (calculateTotals c) = num_mul (subtotal (calculateTotals c)) taxRate
   \<and> total (calculateTotals c) = num_add (subtotal (calculateTotals c)) (tax (calculateTotals c))
   \<and> (list_all (\<lambda>item. price item \<in> \<int>) c
        \<and> (\<Sum>item\<leftarrow>c. \<bar>price item * of_int (quantity item)\<bar>) < 2 ^ 53 \<longrightarrow>
        subtotal (calculateTotals c) =
          Finite (\<Sum>item\<leftarrow>c. price item * of_int (quantity item)))
   \<and> (subtotal (calculateTotals c) = Finite s \<and> tax (calculateTotals c) = Finite x \<longrightarrow>
        \<bar>x - s * (5764607523034235 / 2 ^ 56)\<bar>
          \<le> max (\<bar>s * (5764607523034235 / 2 ^ 56)\<bar> / 2 ^ 53) (2 powi (- 1075)))
   \<and> (subtotal (calculateTotals c) = Finite s \<and> tax (calculateTotals c) = Finite x
        \<and> total (calculateTotals c) = Finite t \<longrightarrow>
        \<bar>t - (s + x)\<bar> \<le> max (\<bar>s + x\<bar> / 2 ^ 53) (2 powi (- 1075)))
   \<and> (subtotal (calculateTotals c) = Finite s \<and> tax (calculateTotals c) = Finite x
        \<and> s + x = of_int m * 2 powi e \<and> \<bar>m\<bar> < 2 ^ 53 \<and> - 1074 \<le> e \<and> \<bar>s + x\<bar> < 2 ^ 1024 \<longrightarrow>
        total (calculateTotals c) = Finite (s + x))
   \<and> (prod_price a = 10 \<and> prod_price b = 5 \<and> prod_id a \<noteq> prod_id b \<longrightarrow>
        calculateTotals (addToCart b (addToCart a (addToCart a []))) =
          \<lparr>subtotal = Finite 25, tax = Finite 2, total = Finite 27\<rparr>)"
proof (intro conjI impI)
  show "taxRate = Finite (5764607523034235 / 2 ^ 56)"
    by (rule taxRate_value)
next
  show "\<bar>5764607523034235 / 2 ^ 56 - 0.08\<bar> \<le> (0.08 :: real) / 2 ^ 53"
    by simp
next
  show "subtotal (calculateTotals []) = Finite 0"
    by (simp add: calculateTotals_def Let_def)
next
  show "subtotal (calculateTotals (c @ [item])) =
       num_add (subtotal (calculateTotals c))
         (num_mul (Finite (price item)) (Finite (of_int (quantity item))))"
    by (rule subtotal_snoc)
next
  show "tax (calculateTotals c) = num_mul (subtotal (calculateTotals c)) taxRate"
    by (simp add: calculateTotals_def Let_def)
next
  show "total (calculateTotals c) = num_add (subtotal (calculateTotals c)) (tax (calculateTotals c))"
    by (simp add: calculateTotals_def Let_def)
next
  assume a: "list_all (\<lambda>item. price item \<in> \<int>) c
        \<and> (\<Sum>item\<leftarrow>c. \<bar>price item * of_int (quantity item)\<bar>) < 2 ^ 53"
  have "foldl (\<lambda>sum item.
            num_add sum (num_mul (Finite (price item)) (Finite (of_int (quantity item)))))
          (Finite 0) c =
         Finite (0 + (\<Sum>item\<leftarrow>c. price item * of_int (quantity item)))"
    by (rule subtotal_fold_exact) (use a in simp_all)
  then show "subtotal (calculateTotals c) =
          Finite (\<Sum>item\<leftarrow>c. price item * of_int (quantity item))"
    by (simp add: calculateTotals_def Let_def)
next
  assume a: "subtotal (calculateTotals c) = Finite s \<and> tax (calculateTotals c) = Finite x"
  then have s: "subtotal (calculateTotals c) = Finite s" and x: "tax (calculateTotals c) = Finite x"
    by blast+
  have "to_number (s * (5764607523034235 / 2 ^ 56)) =
        num_mul (Finite s) (Finite (5764607523034235 / 2 ^ 56))"
    by (simp only: num_mul.simps)
  also have "\<dots> = num_mul (subtotal (calculateTotals c)) taxRate"
    by (simp only: s taxRate_value)
  also have "\<dots> = tax (calculateTotals c)"
    by (simp add: calculateTotals_def Let_def)
  finally have "to_number (s * (5764607523034235 / 2 ^ 56)) = Finite x"
    by (simp only: x)
  then show "\<bar>x - s * (5764607523034235 / 2 ^ 56)\<bar>
          \<le> max (\<bar>s * (5764607523034235 / 2 ^ 56)\<bar> / 2 ^ 53) (2 powi (- 1075))"
    by (rule to_number_error)
next
  assume a: "subtotal (calculateTotals c) = Finite s \<and> tax (calculateTotals c) = Finite x
        \<and> total (calculateTotals c) = Finite t"
  then have s: "subtotal (calculateTotals c) = Finite s" and x: "tax (calculateTotals c) = Finite x"
    and t: "total (calculateTotals c) = Finite t"
    by blast+
  have "to_number (s + x) = num_add (Finite s) (Finite x)"
    by (simp only: num_add.simps)
  also have "\<dots> = num_add (subtotal (calculateTotals c)) (tax (calculateTotals c))"
    by (simp only: s x)
  also have "\<dots> = total (calculateTotals c)"
    by (simp add: calculateTotals_def Let_def)
  finally have "to_number (s + x) = Finite t"
    by (simp only: t)
  then show "\<bar>t - (s + x)\<bar> \<le> max (\<bar>s + x\<bar> / 2 ^ 53) (2 powi (- 1075))"
    by (rule to_number_error)
next
  assume a: "subtotal (calculateTotals c) = Finite s \<and> tax (calculateTotals c) = Finite x
        \<and> s + x = of_int m * 2 powi e \<and> \<bar>m\<bar> < 2 ^ 53 \<and> - 1074 \<le> e \<and> \<bar>s + x\<bar> < 2 ^ 1024"
  then have s: "subtotal (calculateTotals c) = Finite s" and x: "tax (calculateTotals c) = Finite x"
    by blast+
  have "total (calculateTotals c) = num_add (subtotal (calculateTotals c)) (tax (calculateTotals c))"
    by (simp add: calculateTotals_def Let_def)
  also have "\<dots> = to_number (s + x)"
    by (simp only: s x num_add.simps)
  also have "\<dots> = Finite (s + x)"
  proof (rule to_number_exact [where m = m and e = e])
    show "\<bar>m\<bar> < 2 ^ 53" using a by blast
    show "- 1074 \<le> e" using a by blast
    show "s + x = of_int m * 2 powi e" using a by blast
    show "\<bar>s + x\<bar> < 2 ^ 1024" using a by blast
  qed
  finally show "total (calculateTotals c) = Finite (s + x)" .
next
  assume "prod_price a = 10 \<and> prod_price b = 5 \<and> prod_id a \<noteq> prod_id b"
  then show "calculateTotals (addToCart b (addToCart a (addToCart a []))) =
          \<lparr>subtotal = Finite 25, tax = Finite 2, total = Finite 27\<rparr>"
    by (simp add: scenario_totals)
qed

text \<open>C7, at concrete inputs.\<close>

theorem calculateTotals_rounds_to_double_witness:
  "calculateTotals (addToCart gadget (addToCart widget (addToCart widget []))) =
     \<lparr>subtotal = Finite 25, tax = Finite 2, total = Finite 27\<rparr>
   \<and> \<bar>3038409783600847 / 2 ^ 47 - (5626684784446013 / 2 ^ 48 + 7202156524090897 / 2 ^ 52)\<bar>
       \<le> max (\<bar>5626684784446013 / 2 ^ 48 + 7202156524090897 / 2 ^ 52\<bar> / 2 ^ 53)
           (2 powi (- 1075) :: real)"
proof
  have "prod_price widget = 10 \<and> prod_price gadget = 5 \<and> prod_id widget \<noteq> prod_id gadget"
    by (simp add: widget_def gadget_def)
  with calculateTotals_rounds_to_double [where a = widget and b = gadget]
  show "calculateTotals (addToCart gadget (addToCart widget (addToCart widget []))) =
     \<lparr>subtotal = Finite 25, tax = Finite 2, total = Finite 27\<rparr>"
    by blast
next
  let ?c = "[\<lparr>product_id = 1, name = ''Widget'', price = 5626684784446013 / 2 ^ 48, quantity = 1\<rparr>]"
  have "subtotal (calculateTotals ?c) = Finite (5626684784446013 / 2 ^ 48)
      \<and> tax (calculateTotals ?c) = Finite (7202156524090897 / 2 ^ 52)
      \<and> total (calculateTotals ?c) = Finite (3038409783600847 / 2 ^ 47)"
    by (simp only: totals_at_19_99 totals.simps simp_thms)
  with calculateTotals_rounds_to_double
    [where c = ?c and s = "5626684784446013 / 2 ^ 48" and x = "7202156524090897 / 2 ^ 52"
       and t = "3038409783600847 / 2 ^ 47"]
  show "\<bar>3038409783600847 / 2 ^ 47 - (5626684784446013 / 2 ^ 48 + 7202156524090897 / 2 ^ 52)\<bar>
       \<le> max (\<bar>5626684784446013 / 2 ^ 48 + 7202156524090897 / 2 ^ 52\<bar> / 2 ^ 53)
           (2 powi (- 1075) :: real)"
    by blast
qed

text \<open>
  C7 as the specification words it, with exact sums and products, fails. For one line
  priced at the double nearest to 19.99 the total is \<open>21.589199999999998\<close>, which is
  neither the exact sum of the subtotal and the tax returned, nor is the tax the exact
  0.08 of the subtotal. For two lines priced at the doubles nearest to 0.1 and 0.2 the
  subtotal is \<open>0.30000000000000004\<close>, not the exact sum of the two lines.
\<close>

theorem exact_totals_counterexample:
  "round_double 19.99 = 5626684784446013 / 2 ^ 48
   \<and> calculateTotals
        [\<lparr>product_id = 1, name = ''Widget'', price = 5626684784446013 / 2 ^ 48, quantity = 1\<rparr>] =
       \<lparr>subtotal = Finite (5626684784446013 / 2 ^ 48),
        tax = Finite (7202156524090897 / 2 ^ 52),
        total = Finite (3038409783600847 / 2 ^ 47)\<rparr>
   \<and> (3038409783600847 / 2 ^ 47 :: real) \<noteq> 5626684784446013 / 2 ^ 48 + 7202156524090897 / 2 ^ 52
   \<and> (7202156524090897 / 2 ^ 52 :: real) \<noteq> 5626684784446013 / 2 ^ 48 * 0.08
   \<and> subtotal (calculateTotals
        [\<lparr>product_id = 1, name = ''Widget'', price = 3602879701896397 / 2 ^ 55, quantity = 1\<rparr>,
         \<lparr>product_id = 2, name = ''Gadget'', price = 3602879701896397 / 2 ^ 54, quantity = 1\<rparr>]) =
       Finite (1351079888211149 / 2 ^ 52)
   \<and> (1351079888211149 / 2 ^ 52 :: real) \<noteq> 3602879701896397 / 2 ^ 55 * 1 + 3602879701896397 / 2 ^ 54 * 1"
proof (intro conjI)
  show "round_double 19.99 = 5626684784446013 / 2 ^ 48"
    by (simp add: double_eval)
  show "calculateTotals
        [\<lparr>product_id = 1, name = ''Widget'', price = 5626684784446013 / 2 ^ 48, quantity = 1\<rparr>] =
       \<lparr>subtotal = Finite (5626684784446013 / 2 ^ 48),
        tax = Finite (7202156524090897 / 2 ^ 52),
        total = Finite (3038409783600847 / 2 ^ 47)\<rparr>"
    by (rule totals_at_19_99)
  show "(3038409783600847 / 2 ^ 47 :: real) \<noteq> 5626684784446013 / 2 ^ 48 + 7202156524090897 / 2 ^ 52"
    by simp
  show "(7202156524090897 / 2 ^ 52 :: real) \<noteq> 5626684784446013 / 2 ^ 48 * 0.08"
    by simp
  have "foldl (\<lambda>sum item.
              num_add sum (num_mul (Finite (price item)) (Finite (of_int (quantity item)))))
            (Finite 0)
        [\<lparr>product_id = 1, name = ''Widget'', price = 3602879701896397 / 2 ^ 55, quantity = 1\<rparr>,
         \<lparr>product_id = 2, name = ''Gadget'', price = 3602879701896397 / 2 ^ 54, quantity = 1\<rparr>] =
       Finite (1351079888211149 / 2 ^ 52)"
    by (simp only: foldl_Cons foldl_Nil cart_item.simps) (simp add: double_eval)
  then show "subtotal (calculateTotals
        [\<lparr>product_id = 1, name = ''Widget'', price = 3602879701896397 / 2 ^ 55, quantity = 1\<rparr>,
         \<lparr>product_id = 2, name = ''Gadget'', price = 3602879701896397 / 2 ^ 54, quantity = 1\<rparr>]) =
       Finite (1351079888211149 / 2 ^ 52)"
    by (simp only: calculateTotals_def Let_def totals.simps)
  show "(1351079888211149 / 2 ^ 52 :: real) \<noteq> 3602879701896397 / 2 ^ 55 * 1 + 3602879701896397 / 2 ^ 54 * 1"
    by simp
qed

text \<open>
  Claim C8, as the code has it. The component keeps no record of an outstanding checkout:
  a click on ``Process Payment'' is refused only when the cart is empty, and otherwise
  sends a POST with the current snapshot, whether or not an earlier request is still
  unanswered. In particular, with a request outstanding and a cart that has a line, the
  click adds a further outstanding request.
\<close>

theorem checkout_guard_is_the_cart_alone:
  "clickCheckout t =
     (if cart (ui t) = [] then t\<lparr>trace := trace t @ [Alert ''Cart is empty!'']\<rparr>
      else t\<lparr>inflight := inflight t @ [checkoutData (ui t)],
             trace := trace t @ [HttpPost (API_BASE @ ''/checkout'') (checkoutData (ui t))]\<rparr>)
   \<and> (inflight t \<noteq> [] \<and> cart (ui t) \<noteq> [] \<longrightarrow>
        length (inflight (clickCheckout t)) = Suc (length (inflight t))
        \<and> last (inflight (clickCheckout t)) = checkoutData (ui t)
        \<and> ui (clickCheckout t) = ui t)"
  by (simp add: clickCheckout_def processCheckout_request_def)

text \<open>C8, at concrete inputs.\<close>

theorem checkout_guard_is_the_cart_alone_witness:
  "inflight \<lparr>ui = open_sale, inflight = [checkoutData open_sale], trace = []\<rparr> \<noteq> []
   \<and> cart open_sale \<noteq> []
   \<and> length (inflight (clickCheckout
        \<lparr>ui = open_sale, inflight = [checkoutData open_sale], trace = []\<rparr>)) = 2
   \<and> trace (clickCheckout \<lparr>ui = open_sale, inflight = [checkoutData open_sale], trace = []\<rparr>) =
        [HttpPost ''http://localhost:8000/checkout'' (checkoutData open_sale)]"
proof -
  have ne: "cart open_sale \<noteq> []" by (simp add: open_sale_def)
  show ?thesis
    using ne checkout_guard_is_the_cart_alone
      [of "\<lparr>ui = open_sale, inflight = [checkoutData open_sale], trace = []\<rparr>"]
    by (simp add: API_BASE_def)
qed

text \<open>
  C8 as the specification words it fails: with one request outstanding, a second click
  is not refused but sends the same snapshot again.
\<close>

theorem second_checkout_is_submitted_counterexample:
  "inflight (clickCheckout \<lparr>ui = open_sale, inflight = [], trace = []\<rparr>) = [checkoutData open_sale]
   \<and> clickCheckout (clickCheckout \<lparr>ui = open_sale, inflight = [], trace = []\<rparr>) =
       \<lparr>ui = open_sale,
        inflight = [checkoutData open_sale, checkoutData open_sale],
        trace = [HttpPost ''http://localhost:8000/checkout'' (checkoutData open_sale),
                 HttpPost ''http://localhost:8000/checkout'' (checkoutData open_sale)]\<rparr>"
  by (simp add: clickCheckout_def processCheckout_request_def open_sale_def API_BASE_def)

text \<open>
  Claim C9, as the code has it. A failed lookup leaves the state (and so the cart)
  unchanged. When the box holds only white space nothing is requested and nothing shown;
  otherwise the request is sent and the operator is alerted with \<open>searchErrorMessage\<close>.
  That message is ``Product not found!'' whenever the response has status 404, but not
  only then: it is also the default for a thrown value that is neither an error of the
  HTTP client nor an \<^verbatim>\<open>Error\<close>. For a failure of the HTTP client without status 404 the
  message is the \<^verbatim>\<open>detail\<close> of the body when there is a non-empty one, else the
  client's own message when non-empty, else ``Search failed'', whatever that text says;
  for another \<^verbatim>\<open>Error\<close> it is the error's message.
\<close>

theorem lookup_failure_message_and_cart:
  "fst (searchByBarcode (Inl error) s) = s
   \<and> cart (fst (searchByBarcode (Inl error) s)) = cart s
   \<and> (trim (barcodeInput s) = [] \<longrightarrow> snd (searchByBarcode (Inl error) s) = [])
   \<and> (trim (barcodeInput s) \<noteq> [] \<longrightarrow>
        snd (searchByBarcode (Inl error) s) =
          [HttpGetAt (API_BASE @ ''/products/'') (barcodeInput s),
           Alert (searchErrorMessage error), ConsoleError ''Barcode search error:''])
   \<and> (map_option status (response e) = Some 404 \<longrightarrow>
        searchErrorMessage (AxiosError e) = ''Product not found!'')
   \<and> (map_option status (response e) \<noteq> Some 404 \<and> response_detail e = Some d \<and> d \<noteq> [] \<longrightarrow>
        searchErrorMessage (AxiosError e) = d)
   \<and> (map_option status (response e) \<noteq> Some 404
        \<and> (response_detail e = None \<or> response_detail e = Some []) \<and> message e \<noteq> [] \<longrightarrow>
        searchErrorMessage (AxiosError e) = message e)
   \<and> (map_option status (response e) \<noteq> Some 404
        \<and> (response_detail e = None \<or> response_detail e = Some []) \<and> message e = [] \<longrightarrow>
        searchErrorMessage (AxiosError e) = ''Search failed'')
   \<and> searchErrorMessage (StdError m) = m
   \<and> searchErrorMessage OtherThrown = ''Product not found!''"
proof (intro conjI impI)
  show "fst (searchByBarcode (Inl error) s) = s"
    by (rule search_failed_state)
  then show "cart (fst (searchByBarcode (Inl error) s)) = cart s"
    by simp
next
  assume "trim (barcodeInput s) = []"
  then show "snd (searchByBarcode (Inl error) s) = []"
    by (simp add: search_blank)
next
  assume "trim (barcodeInput s) \<noteq> []"
  then show "snd (searchByBarcode (Inl error) s) =
          [HttpGetAt (API_BASE @ ''/products/'') (barcodeInput s),
           Alert (searchErrorMessage error), ConsoleError ''Barcode search error:'']"
    by (simp add: search_failed)
next
  assume "map_option status (response e) = Some 404"
  then show "searchErrorMessage (AxiosError e) = ''Product not found!''"
    by (auto simp: searchErrorMessage_def)
next
  assume "map_option status (response e) \<noteq> Some 404 \<and> response_detail e = Some d \<and> d \<noteq> []"
  then show "searchErrorMessage (AxiosError e) = d"
    by (auto simp: searchErrorMessage_def or_else_cases)
next
  assume "map_option status (response e) \<noteq> Some 404
        \<and> (response_detail e = None \<or> response_detail e = Some []) \<and> message e \<noteq> []"
  then show "searchErrorMessage (AxiosError e) = message e"
    by (auto simp: searchErrorMessage_def or_else_cases)
next
  assume "map_option status (response e) \<noteq> Some 404
        \<and> (response_detail e = None \<or> response_detail e = Some []) \<and> message e = []"
  then show "searchErrorMessage (AxiosError e) = ''Search failed''"
    by (auto simp: searchErrorMessage_def or_else_cases)
next
  show "searchErrorMessage (StdError m) = m"
    by (simp add: searchErrorMessage_def)
next
  show "searchErrorMessage OtherThrown = ''Product not found!''"
    by (simp add: searchErrorMessage_def)
qed

text \<open>C9, at concrete inputs.\<close>

theorem lookup_failure_message_and_cart_witness:
  "searchByBarcode (Inl not_found) open_sale =
     (open_sale, [HttpGetAt ''http://localhost:8000/products/'' (code_units ''UNKNOWN''),
                  Alert ''Product not found!'', ConsoleError ''Barcode search error:''])
   \<and> snd (searchByBarcode (Inl not_found)
            (open_sale\<lparr>barcodeInput := [0x0020, 0x00A0, 0x2003]\<rparr>)) = []
   \<and> searchErrorMessage network_down = ''Network Error''
   \<and> searchErrorMessage
        (AxiosError \<lparr>response = Some \<lparr>status = 500, detail = Some ''Database is locked''\<rparr>,
                     message = ''Request failed with status code 500''\<rparr>) = ''Database is locked''
   \<and> searchErrorMessage (AxiosError \<lparr>response = None, message = []\<rparr>) = ''Search failed''"
proof -
  have t: "trim (barcodeInput open_sale) \<noteq> []"
    using trim_unknown by (simp add: open_sale_def)
  have b: "trim (barcodeInput (open_sale\<lparr>barcodeInput := [0x0020, 0x00A0, 0x2003]\<rparr>)) = []"
    by (simp add: trim_def white_space_def)
  have "fst (searchByBarcode (Inl not_found) open_sale) = open_sale
        \<and> snd (searchByBarcode (Inl not_found) open_sale) =
          [HttpGetAt ''http://localhost:8000/products/'' (code_units ''UNKNOWN''),
           Alert ''Product not found!'', ConsoleError ''Barcode search error:'']"
    using t lookup_failure_message_and_cart
      [where s = open_sale and error = not_found
         and e = "\<lparr>response = Some \<lparr>status = 404, detail = Some ''Product not found''\<rparr>,
                   message = ''Request failed with status code 404''\<rparr>"]
    by (simp add: API_BASE_def not_found_def open_sale_def)
  then have one: "searchByBarcode (Inl not_found) open_sale =
     (open_sale, [HttpGetAt ''http://localhost:8000/products/'' (code_units ''UNKNOWN''),
                  Alert ''Product not found!'', ConsoleError ''Barcode search error:''])"
    by (simp add: prod_eq_iff)
  have two: "snd (searchByBarcode (Inl not_found)
            (open_sale\<lparr>barcodeInput := [0x0020, 0x00A0, 0x2003]\<rparr>)) = []"
    using b lookup_failure_message_and_cart
      [where s = "open_sale\<lparr>barcodeInput := [0x0020, 0x00A0, 0x2003]\<rparr>" and error = not_found]
    by blast
  show ?thesis
    using one two
      lookup_failure_message_and_cart
        [where e = "\<lparr>response = None, message = ''Network Error''\<rparr>"]
      lookup_failure_message_and_cart
        [where e = "\<lparr>response = Some \<lparr>status = 500, detail = Some ''Database is locked''\<rparr>,
                     message = ''Request failed with status code 500''\<rparr>"
           and d = "''Database is locked''"]
      lookup_failure_message_and_cart
        [where e = "\<lparr>response = None, message = []\<rparr>"]
    by (simp add: network_down_def response_detail_def)
qed

text \<open>
  C9 as the specification words it fails in the direction ``only when'': with no 404
  from the backend the operator is shown ``Product not found!'' for a thrown value that
  is not an error object, and for a response of status 500 whose detail is that text.
\<close>

theorem not_found_shown_without_404_counterexample:
  "searchByBarcode (Inl OtherThrown) open_sale =
     (open_sale, [HttpGetAt ''http://localhost:8000/products/'' (code_units ''UNKNOWN''),
                  Alert ''Product not found!'', ConsoleError ''Barcode search error:''])
   \<and> searchByBarcode
        (Inl (AxiosError \<lparr>response = Some \<lparr>status = 500, detail = Some ''Product not found!''\<rparr>,
                          message = ''Request failed with status code 500''\<rparr>)) open_sale =
     (open_sale, [HttpGetAt ''http://localhost:8000/products/'' (code_units ''UNKNOWN''),
                  Alert ''Product not found!'', ConsoleError ''Barcode search error:''])"
proof -
  have t: "trim (barcodeInput open_sale) \<noteq> []"
    using trim_unknown by (simp add: open_sale_def)
  show ?thesis
    by (simp add: search_failed [OF t] API_BASE_def searchErrorMessage_def or_else_def
        response_detail_def) (simp add: open_sale_def)
qed

text \<open>
  Claim C10. A confirmed checkout empties the cart and leaves the customer name and the
  payment method as they were: the state changes in the invoice shown, the receipt flag,
  the cart and (when the catalog request succeeds) the product list, and in nothing else.
\<close>

theorem confirmed_checkout_keeps_sale_metadata:
  "cart s \<noteq> [] \<longrightarrow>
     cart (fst (processCheckout (Inr data) catalog s)) = []
     \<and> customerName (fst (processCheckout (Inr data) catalog s)) = customerName s
     \<and> paymentMethod (fst (processCheckout (Inr data) catalog s)) = paymentMethod s
     \<and> fst (processCheckout (Inr data) catalog s) =
         s\<lparr>currentInvoice := Some data, showReceipt := True, cart := [],
           products := (case catalog of Inr ps \<Rightarrow> ps | Inl error \<Rightarrow> products s)\<rparr>"
  by (simp add: processCheckout_confirmed)

text \<open>C10, at concrete inputs.\<close>

theorem confirmed_checkout_keeps_sale_metadata_witness:
  "cart open_sale \<noteq> []
   \<and> cart (fst (processCheckout (Inr receipt) (Inr [widget]) open_sale)) = []
   \<and> customerName (fst (processCheckout (Inr receipt) (Inr [widget]) open_sale)) = ''Alice''
   \<and> customerName (fst (processCheckout (Inr receipt) (Inr [widget]) open_sale))
       \<noteq> customerName initial_state
   \<and> paymentMethod (fst (processCheckout (Inr receipt) (Inr [widget]) open_sale)) = ''card''"
proof -
  have ne: "cart open_sale \<noteq> []" by (simp add: open_sale_def)
  have meta: "customerName open_sale = ''Alice'' \<and> paymentMethod open_sale = ''card''"
    by (simp add: open_sale_def)
  show ?thesis
    using ne meta confirmed_checkout_keeps_sale_metadata
      [where s = open_sale and data = receipt and catalog = "Inr [widget]"]
    by (simp add: initial_state_def)
qed

end
